theory Spec2Isabelle
  imports Complex_Main
begin

section \<open>JavaScript numbers\<close>

text \<open>
  Every number of the program is a JavaScript number, that is an IEEE 754 binary64 value.
  A finite number is modelled by the rational it denotes. An arithmetic operation of the
  source (\<^verbatim>\<open>+\<close>, \<^verbatim>\<open>-\<close>, \<^verbatim>\<open>*\<close>, \<^verbatim>\<open>/\<close>) computes the exact result and rounds it to
  53 significant bits, ties to even (\<open>fl\<close>); a decimal literal such as \<^verbatim>\<open>0.153\<close> denotes
  the rounded value of the decimal (\<open>lit\<close>). The exponent range is taken as unbounded:
  overflow to an infinite value, subnormal numbers, NaN and the negative zero are outside
  the model. The one infinite value written in the program, the width of the last bracket
  of a table, is a constructor of its own (\<open>Infinity\<close>).
\<close>

fun bitlen :: "nat \<Rightarrow> nat" where
  "bitlen n = (if n = 0 then 0 else Suc (bitlen (n div 2)))"

declare bitlen.simps [simp del]

text \<open>The binary exponent of a positive rational: \<open>2 powi ilog2 x \<le> x < 2 powi (ilog2 x + 1)\<close>.\<close>

definition ilog2 :: "rat \<Rightarrow> int" where
  "ilog2 x = (if 1 \<le> x then int (bitlen (nat \<lfloor>x\<rfloor>)) - 1
              else - int (bitlen (nat (\<lceil>1 / x\<rceil> - 1))))"

definition round_even :: "rat \<Rightarrow> int" where
  "round_even x = (let f = \<lfloor>x\<rfloor>; d = x - of_int f in
     if d < 1/2 then f else if 1/2 < d then f + 1 else if even f then f else f + 1)"

definition fl :: "rat \<Rightarrow> rat" where
  "fl x = (if x = 0 then 0 else
     let u = 2 powi (ilog2 \<bar>x\<bar> - 52) in
       sgn x * (of_int (round_even (\<bar>x\<bar> / u)) * u))"

definition lit :: "rat \<Rightarrow> rat" where
  "lit x = fl x"

definition jadd :: "rat \<Rightarrow> rat \<Rightarrow> rat" where
  "jadd a b = fl (a + b)"

definition jsub :: "rat \<Rightarrow> rat \<Rightarrow> rat" where
  "jsub a b = fl (a - b)"

definition jmul :: "rat \<Rightarrow> rat \<Rightarrow> rat" where
  "jmul a b = fl (a * b)"

definition jdiv :: "rat \<Rightarrow> rat \<Rightarrow> rat" where
  "jdiv a b = fl (a / b)"

text \<open>
  \<^verbatim>\<open>Math.round\<close> returns the nearest integer, a tie going to the larger one;
  \<^verbatim>\<open>Math.floor\<close> the largest integer below. Neither rounds a second time.
\<close>

definition js_round :: "rat \<Rightarrow> rat" where
  "js_round x = of_int \<lfloor>x + 1 / 2\<rfloor>"

definition js_floor :: "rat \<Rightarrow> rat" where
  "js_floor x = of_int \<lfloor>x\<rfloor>"

text \<open>
  \<^verbatim>\<open>x || d\<close> on a number that may be absent: \<open>d\<close> when \<open>x\<close> is undefined or zero.
  \<open>truthy\<close> is the test of \<^verbatim>\<open>if (x)\<close>.
\<close>

definition truthy :: "rat option \<Rightarrow> bool" where
  "truthy x = (case x of None \<Rightarrow> False | Some v \<Rightarrow> v \<noteq> 0)"

definition or_else :: "rat option \<Rightarrow> rat \<Rightarrow> rat" where
  "or_else x d = (case x of None \<Rightarrow> d | Some v \<Rightarrow> if v = 0 then d else v)"

definition or_num :: "rat \<Rightarrow> rat \<Rightarrow> rat" where
  "or_num x d = (if x = 0 then d else x)"


section \<open>tax-data.js: the constants\<close>

datatype width = Width rat | Infinity

type_synonym bracket = "width \<times> rat"

type_synonym by_status = "(string \<times> bracket list) list"

text \<open>
  A year of one jurisdiction. The raw tables hold the brackets keyed by filing status
  (\<open>'b = by_status\<close>) and no resolved deduction (\<open>'d = unit\<close>); \<open>getTaxConstants\<close> returns
  the same object with \<open>brackets\<close> replaced by the list of one filing status
  (\<open>'b = bracket list\<close>) and the key \<open>stdDeduction\<close> added (\<open>'d = rat\<close>). Of the federal
  scalars the record keeps those the filing computation reads.
\<close>

record ('b, 'd) year_consts =
  standardDeduction :: "(string \<times> rat) list"
  brackets :: 'b
  stdDeduction :: 'd

record ('b, 'd) fed_consts = "('b, 'd) year_consts" +
  seTaxRate :: rat
  contrib401kLimit :: rat
  contribIRALimit :: rat
  contribHSASelf :: rat
  mileageRate :: rat
  saltCap :: rat
  ctcAmount :: rat
  educatorExpense :: rat
  studentLoanMax :: rat

record ('b, 'd) ca_consts = "('b, 'd) year_consts" +
  mentalHealthThreshold :: rat
  mentalHealthRate :: rat
  rentersCreditLimit :: "(string \<times> rat) list"
  rentersCreditAmount :: "(string \<times> rat) list"

record ('b, 'd) ny_consts = "('b, 'd) year_consts" +
  nycBrackets :: "'b option"

definition FEDERAL_2023 :: "(by_status, unit) fed_consts" where
  "FEDERAL_2023 = \<lparr>
    standardDeduction = [(''single'', 13850), (''mfj'', 27700), (''mfs'', 13850),
                         (''hoh'', 20800), (''qss'', 27700)],
    brackets = [
      (''single'', [
        (Width 11000, lit (10/100)), (Width (44725 - 11000), lit (12/100)),
        (Width (95375 - 44725), lit (22/100)), (Width (182100 - 95375), lit (24/100)),
        (Width (231250 - 182100), lit (32/100)), (Width (578125 - 231250), lit (35/100)),
        (Infinity, lit (37/100))]),
      (''mfj'', [
        (Width 22000, lit (10/100)), (Width (89450 - 22000), lit (12/100)),
        (Width (190750 - 89450), lit (22/100)), (Width (364200 - 190750), lit (24/100)),
        (Width (462500 - 364200), lit (32/100)), (Width (693750 - 462500), lit (35/100)),
        (Infinity, lit (37/100))]),
      (''mfs'', [
        (Width 11000, lit (10/100)), (Width (44725 - 11000), lit (12/100)),
        (Width (95375 - 44725), lit (22/100)), (Width (182100 - 95375), lit (24/100)),
        (Width (231250 - 182100), lit (32/100)), (Width (346875 - 231250), lit (35/100)),
        (Infinity, lit (37/100))]),
      (''hoh'', [
        (Width 15700, lit (10/100)), (Width (59850 - 15700), lit (12/100)),
        (Width (95350 - 59850), lit (22/100)), (Width (182100 - 95350), lit (24/100)),
        (Width (231250 - 182100), lit (32/100)), (Width (578100 - 231250), lit (35/100)),
        (Infinity, lit (37/100))])],
    stdDeduction = (),
    seTaxRate = lit (153/1000),
    contrib401kLimit = 22500,
    contribIRALimit = 6500,
    contribHSASelf = 3850,
    mileageRate = lit (655/1000),
    saltCap = 10000,
    ctcAmount = 2000,
    educatorExpense = 300,
    studentLoanMax = 2500 \<rparr>"

definition FEDERAL_2024 :: "(by_status, unit) fed_consts" where
  "FEDERAL_2024 = \<lparr>
    standardDeduction = [(''single'', 14600), (''mfj'', 29200), (''mfs'', 14600),
                         (''hoh'', 21900), (''qss'', 29200)],
    brackets = [
      (''single'', [
        (Width 11600, lit (10/100)), (Width (47150 - 11600), lit (12/100)),
        (Width (100525 - 47150), lit (22/100)), (Width (191950 - 100525), lit (24/100)),
        (Width (243725 - 191950), lit (32/100)), (Width (609350 - 243725), lit (35/100)),
        (Infinity, lit (37/100))]),
      (''mfj'', [
        (Width 23200, lit (10/100)), (Width (94300 - 23200), lit (12/100)),
        (Width (201050 - 94300), lit (22/100)), (Width (383900 - 201050), lit (24/100)),
        (Width (487450 - 383900), lit (32/100)), (Width (731200 - 487450), lit (35/100)),
        (Infinity, lit (37/100))]),
      (''mfs'', [
        (Width 11600, lit (10/100)), (Width (47150 - 11600), lit (12/100)),
        (Width (100525 - 47150), lit (22/100)), (Width (191950 - 100525), lit (24/100)),
        (Width (243725 - 191950), lit (32/100)), (Width (365600 - 243725), lit (35/100)),
        (Infinity, lit (37/100))]),
      (''hoh'', [
        (Width 16550, lit (10/100)), (Width (63100 - 16550), lit (12/100)),
        (Width (100500 - 63100), lit (22/100)), (Width (191950 - 100500), lit (24/100)),
        (Width (243700 - 191950), lit (32/100)), (Width (609350 - 243700), lit (35/100)),
        (Infinity, lit (37/100))])],
    stdDeduction = (),
    seTaxRate = lit (153/1000),
    contrib401kLimit = 23000,
    contribIRALimit = 7000,
    contribHSASelf = 4150,
    mileageRate = lit (67/100),
    saltCap = 10000,
    ctcAmount = 2000,
    educatorExpense = 300,
    studentLoanMax = 2500 \<rparr>"

definition FEDERAL_2025 :: "(by_status, unit) fed_consts" where
  "FEDERAL_2025 = \<lparr>
    standardDeduction = [(''single'', 15000), (''mfj'', 30000), (''mfs'', 15000),
                         (''hoh'', 22500), (''qss'', 30000)],
    brackets = [
      (''single'', [
        (Width 11925, lit (10/100)), (Width (48475 - 11925), lit (12/100)),
        (Width (103350 - 48475), lit (22/100)), (Width (197300 - 103350), lit (24/100)),
        (Width (250525 - 197300), lit (32/100)), (Width (626350 - 250525), lit (35/100)),
        (Infinity, lit (37/100))]),
      (''mfj'', [
        (Width 23850, lit (10/100)), (Width (96950 - 23850), lit (12/100)),
        (Width (206700 - 96950), lit (22/100)), (Width (394600 - 206700), lit (24/100)),
        (Width (501050 - 394600), lit (32/100)), (Width (751600 - 501050), lit (35/100)),
        (Infinity, lit (37/100))]),
      (''mfs'', [
        (Width 11925, lit (10/100)), (Width (48475 - 11925), lit (12/100)),
        (Width (103350 - 48475), lit (22/100)), (Width (197300 - 103350), lit (24/100)),
        (Width (250525 - 197300), lit (32/100)), (Width (375800 - 250525), lit (35/100)),
        (Infinity, lit (37/100))]),
      (''hoh'', [
        (Width 17000, lit (10/100)), (Width (64850 - 17000), lit (12/100)),
        (Width (103350 - 64850), lit (22/100)), (Width (197300 - 103350), lit (24/100)),
        (Width (250500 - 197300), lit (32/100)), (Width (626350 - 250500), lit (35/100)),
        (Infinity, lit (37/100))])],
    stdDeduction = (),
    seTaxRate = lit (153/1000),
    contrib401kLimit = 23500,
    contribIRALimit = 7000,
    contribHSASelf = 4300,
    mileageRate = lit (70/100),
    saltCap = 10000,
    ctcAmount = 2000,
    educatorExpense = 300,
    studentLoanMax = 2500 \<rparr>"

definition FEDERAL_DATA :: "nat \<Rightarrow> (by_status, unit) fed_consts option" where
  "FEDERAL_DATA yr =
     (if yr = 2023 then Some FEDERAL_2023
      else if yr = 2024 then Some FEDERAL_2024
      else if yr = 2025 then Some FEDERAL_2025
      else None)"

definition CALIFORNIA_2023 :: "(by_status, unit) ca_consts" where
  "CALIFORNIA_2023 = \<lparr>
    standardDeduction = [(''single'', 5363), (''mfj'', 10726), (''mfs'', 5363), (''hoh'', 10726)],
    brackets = [
      (''single'', [
        (Width 10099, lit (1/100)), (Width (23942 - 10099), lit (2/100)),
        (Width (37788 - 23942), lit (4/100)), (Width (52455 - 37788), lit (6/100)),
        (Width (66295 - 52455), lit (8/100)), (Width (338639 - 66295), lit (93/1000)),
        (Width (406364 - 338639), lit (103/1000)), (Width (677275 - 406364), lit (113/1000)),
        (Infinity, lit (123/1000))]),
      (''mfj'', [
        (Width 20198, lit (1/100)), (Width (47884 - 20198), lit (2/100)),
        (Width (75576 - 47884), lit (4/100)), (Width (104910 - 75576), lit (6/100)),
        (Width (132590 - 104910), lit (8/100)), (Width (677278 - 132590), lit (93/1000)),
        (Width (812728 - 677278), lit (103/1000)), (Width (1354550 - 812728), lit (113/1000)),
        (Infinity, lit (123/1000))])],
    stdDeduction = (),
    mentalHealthThreshold = 1000000,
    mentalHealthRate = lit (1/100),
    rentersCreditLimit = [(''single'', 49220), (''mfj'', 98440)],
    rentersCreditAmount = [(''single'', 60), (''mfj'', 120)] \<rparr>"

definition CALIFORNIA_2024 :: "(by_status, unit) ca_consts" where
  "CALIFORNIA_2024 = \<lparr>
    standardDeduction = [(''single'', 5540), (''mfj'', 11080), (''mfs'', 5540), (''hoh'', 11080)],
    brackets = [
      (''single'', [
        (Width 10412, lit (1/100)), (Width (24684 - 10412), lit (2/100)),
        (Width (38959 - 24684), lit (4/100)), (Width (54081 - 38959), lit (6/100)),
        (Width (68350 - 54081), lit (8/100)), (Width (349137 - 68350), lit (93/1000)),
        (Width (418961 - 349137), lit (103/1000)), (Width (698271 - 418961), lit (113/1000)),
        (Infinity, lit (123/1000))]),
      (''mfj'', [
        (Width 20824, lit (1/100)), (Width (49368 - 20824), lit (2/100)),
        (Width (77918 - 49368), lit (4/100)), (Width (108162 - 77918), lit (6/100)),
        (Width (136700 - 108162), lit (8/100)), (Width (698274 - 136700), lit (93/1000)),
        (Width (837922 - 698274), lit (103/1000)), (Width (1396542 - 837922), lit (113/1000)),
        (Infinity, lit (123/1000))])],
    stdDeduction = (),
    mentalHealthThreshold = 1000000,
    mentalHealthRate = lit (1/100),
    rentersCreditLimit = [(''single'', 50746), (''mfj'', 101492)],
    rentersCreditAmount = [(''single'', 60), (''mfj'', 120)] \<rparr>"

definition CALIFORNIA_2025 :: "(by_status, unit) ca_consts" where
  "CALIFORNIA_2025 = \<lparr>
    standardDeduction = [(''single'', 5540), (''mfj'', 11080), (''mfs'', 5540), (''hoh'', 11080)],
    brackets = [
      (''single'', [
        (Width 10412, lit (1/100)), (Width (24684 - 10412), lit (2/100)),
        (Width (38959 - 24684), lit (4/100)), (Width (54081 - 38959), lit (6/100)),
        (Width (68350 - 54081), lit (8/100)), (Width (349137 - 68350), lit (93/1000)),
        (Width (418961 - 349137), lit (103/1000)), (Width (698271 - 418961), lit (113/1000)),
        (Infinity, lit (123/1000))]),
      (''mfj'', [
        (Width 20824, lit (1/100)), (Width (49368 - 20824), lit (2/100)),
        (Width (77918 - 49368), lit (4/100)), (Width (108162 - 77918), lit (6/100)),
        (Width (136700 - 108162), lit (8/100)), (Width (698274 - 136700), lit (93/1000)),
        (Width (837922 - 698274), lit (103/1000)), (Width (1396542 - 837922), lit (113/1000)),
        (Infinity, lit (123/1000))])],
    stdDeduction = (),
    mentalHealthThreshold = 1000000,
    mentalHealthRate = lit (1/100),
    rentersCreditLimit = [(''single'', 50746), (''mfj'', 101492)],
    rentersCreditAmount = [(''single'', 60), (''mfj'', 120)] \<rparr>"

definition CALIFORNIA_DATA :: "nat \<Rightarrow> (by_status, unit) ca_consts option" where
  "CALIFORNIA_DATA yr =
     (if yr = 2023 then Some CALIFORNIA_2023
      else if yr = 2024 then Some CALIFORNIA_2024
      else if yr = 2025 then Some CALIFORNIA_2025
      else None)"

text \<open>The three years of the New York table are the same object literal.\<close>

definition NEWYORK_2023 :: "(by_status, unit) ny_consts" where
  "NEWYORK_2023 = \<lparr>
    standardDeduction = [(''single'', 8000), (''mfj'', 16050), (''mfs'', 8000), (''hoh'', 11200)],
    brackets = [
      (''single'', [
        (Width 8500, lit (4/100)), (Width (11700 - 8500), lit (45/1000)),
        (Width (13900 - 11700), lit (525/10000)), (Width (80650 - 13900), lit (585/10000)),
        (Width (215400 - 80650), lit (625/10000)), (Width (1077550 - 215400), lit (685/10000)),
        (Width (5000000 - 1077550), lit (965/10000)), (Width (25000000 - 5000000), lit (103/1000)),
        (Infinity, lit (109/1000))]),
      (''mfj'', [
        (Width 17150, lit (4/100)), (Width (23600 - 17150), lit (45/1000)),
        (Width (27900 - 23600), lit (525/10000)), (Width (161550 - 27900), lit (585/10000)),
        (Width (323200 - 161550), lit (625/10000)), (Width (2155350 - 323200), lit (685/10000)),
        (Width (5000000 - 2155350), lit (965/10000)), (Width (25000000 - 5000000), lit (103/1000)),
        (Infinity, lit (109/1000))])],
    stdDeduction = (),
    nycBrackets = Some [
      (''single'', [
        (Width 12000, lit (3078/100000)), (Width (25000 - 12000), lit (3762/100000)),
        (Width (50000 - 25000), lit (3819/100000)), (Infinity, lit (3876/100000))])] \<rparr>"

definition NEWYORK_2024 :: "(by_status, unit) ny_consts" where
  "NEWYORK_2024 = NEWYORK_2023"

definition NEWYORK_2025 :: "(by_status, unit) ny_consts" where
  "NEWYORK_2025 = NEWYORK_2023"

definition NEWYORK_DATA :: "nat \<Rightarrow> (by_status, unit) ny_consts option" where
  "NEWYORK_DATA yr =
     (if yr = 2023 then Some NEWYORK_2023
      else if yr = 2024 then Some NEWYORK_2024
      else if yr = 2025 then Some NEWYORK_2025
      else None)"


section \<open>tax-data.js: the bracket calculator\<close>

text \<open>
  The loop of \<open>computeTaxFromBrackets\<close>, with its two variables as arguments.
  \<^verbatim>\<open>Math.min(remaining, Infinity)\<close> is \<open>remaining\<close>.
\<close>

definition min_width :: "rat \<Rightarrow> width \<Rightarrow> rat" where
  "min_width remaining w = (case w of Width v \<Rightarrow> min remaining v | Infinity \<Rightarrow> remaining)"

fun bracket_loop :: "rat \<Rightarrow> rat \<Rightarrow> bracket list \<Rightarrow> rat" where
  "bracket_loop tax remaining [] = tax"
| "bracket_loop tax remaining ((width, rate) # rest) =
     (if remaining \<le> 0 then tax
      else let amt = min_width remaining width
           in bracket_loop (jadd tax (jmul amt rate)) (jsub remaining amt) rest)"

definition computeTaxFromBrackets :: "rat \<Rightarrow> bracket list \<Rightarrow> rat" where
  "computeTaxFromBrackets taxableIncome bs = js_round (bracket_loop 0 taxableIncome bs)"


section \<open>tax-data.js: getTaxConstants\<close>

text \<open>
  \<^verbatim>\<open>table[key] || dflt\<close>: an array is never falsy, a number is when it is zero.
  Keys inherited from the object prototype are outside the model.
\<close>

definition lookup_brackets :: "by_status \<Rightarrow> string \<Rightarrow> bracket list \<Rightarrow> bracket list" where
  "lookup_brackets table key dflt = (case map_of table key of Some b \<Rightarrow> b | None \<Rightarrow> dflt)"

definition lookup_amount :: "(string \<times> rat) list \<Rightarrow> string \<Rightarrow> rat \<Rightarrow> rat" where
  "lookup_amount table key dflt = or_else (map_of table key) dflt"

text \<open>The value of \<^verbatim>\<open>table.single\<close>; every table of the data has the key.\<close>

definition single_brackets :: "by_status \<Rightarrow> bracket list" where
  "single_brackets table = lookup_brackets table ''single'' []"

definition single_amount :: "(string \<times> rat) list \<Rightarrow> rat" where
  "single_amount table = lookup_amount table ''single'' 0"

datatype state_constants =
    California "(bracket list, rat) ca_consts"
  | NewYork "(bracket list, rat) ny_consts"

record tax_constants =
  fed :: "(bracket list, rat) fed_consts"
  state :: "state_constants option"

definition getTaxConstants :: "nat \<Rightarrow> string option \<Rightarrow> string \<Rightarrow> tax_constants" where
  "getTaxConstants year stateId filingStatus =
    (let yr = (if year = 0 then 2025 else year);
         fs = (if filingStatus = [] then ''single'' else filingStatus);
         fedYear = (case FEDERAL_DATA yr of Some d \<Rightarrow> d | None \<Rightarrow> FEDERAL_2025);
         fedBrackets = lookup_brackets (brackets fedYear) fs (single_brackets (brackets fedYear));
         fedStdDed = lookup_amount (standardDeduction fedYear) fs
                       (single_amount (standardDeduction fedYear));
         fed = \<lparr> standardDeduction = standardDeduction fedYear,
                 brackets = fedBrackets,
                 stdDeduction = fedStdDed,
                 seTaxRate = seTaxRate fedYear,
                 contrib401kLimit = contrib401kLimit fedYear,
                 contribIRALimit = contribIRALimit fedYear,
                 contribHSASelf = contribHSASelf fedYear,
                 mileageRate = mileageRate fedYear,
                 saltCap = saltCap fedYear,
                 ctcAmount = ctcAmount fedYear,
                 educatorExpense = educatorExpense fedYear,
                 studentLoanMax = studentLoanMax fedYear \<rparr>;
         stateConstants =
           (if stateId = Some ''california'' then
              let caYear = (case CALIFORNIA_DATA yr of Some d \<Rightarrow> d | None \<Rightarrow> CALIFORNIA_2025);
                  caBracketKey = (if fs = ''mfj'' \<or> fs = ''qss'' then ''mfj'' else ''single'');
                  caBrackets = lookup_brackets (brackets caYear) caBracketKey
                                 (single_brackets (brackets caYear));
                  caStdDed = lookup_amount (standardDeduction caYear) fs
                               (single_amount (standardDeduction caYear))
              in Some (California \<lparr>
                   standardDeduction = standardDeduction caYear,
                   brackets = caBrackets,
                   stdDeduction = caStdDed,
                   mentalHealthThreshold = mentalHealthThreshold caYear,
                   mentalHealthRate = mentalHealthRate caYear,
                   rentersCreditLimit = rentersCreditLimit caYear,
                   rentersCreditAmount = rentersCreditAmount caYear \<rparr>)
            else if stateId = Some ''newYork'' then
              let nyYear = (case NEWYORK_DATA yr of Some d \<Rightarrow> d | None \<Rightarrow> NEWYORK_2025);
                  nyBracketKey = (if fs = ''mfj'' \<or> fs = ''qss'' then ''mfj'' else ''single'');
                  nyBrackets = lookup_brackets (brackets nyYear) nyBracketKey
                                 (single_brackets (brackets nyYear));
                  nyStdDed = lookup_amount (standardDeduction nyYear) fs
                               (single_amount (standardDeduction nyYear));
                  nycBrackets = (case nycBrackets nyYear of
                                   Some t \<Rightarrow> Some (lookup_brackets t nyBracketKey (single_brackets t))
                                 | None \<Rightarrow> None)
              in Some (NewYork \<lparr>
                   standardDeduction = standardDeduction nyYear,
                   brackets = nyBrackets,
                   stdDeduction = nyStdDed,
                   nycBrackets = nycBrackets \<rparr>)
            else None)
     in \<lparr> fed = fed, state = stateConstants \<rparr>)"


text \<open>
  The fields \<open>brackets\<close>, \<open>stdDeduction\<close> and \<open>standardDeduction\<close> of the state part
  of the result, whichever state it is.
\<close>

definition state_brackets :: "tax_constants \<Rightarrow> bracket list option" where
  "state_brackets c = (case state c of None \<Rightarrow> None
      | Some (California k) \<Rightarrow> Some (brackets k)
      | Some (NewYork k) \<Rightarrow> Some (brackets k))"

definition state_stdDeduction :: "tax_constants \<Rightarrow> rat option" where
  "state_stdDeduction c = (case state c of None \<Rightarrow> None
      | Some (California k) \<Rightarrow> Some (stdDeduction k)
      | Some (NewYork k) \<Rightarrow> Some (stdDeduction k))"

definition state_standardDeduction :: "tax_constants \<Rightarrow> (string \<times> rat) list option" where
  "state_standardDeduction c = (case state c of None \<Rightarrow> None
      | Some (California k) \<Rightarrow> Some (standardDeduction k)
      | Some (NewYork k) \<Rightarrow> Some (standardDeduction k))"

text \<open>
  The entry of a state's data that \<open>getTaxConstants\<close> reads for a year,
  \<^verbatim>\<open>CALIFORNIA_DATA[yr] || CALIFORNIA_DATA[2025]\<close> with \<^verbatim>\<open>yr = year || 2025\<close>, and its two
  tables by filing status, before any filing status is resolved.
\<close>

definition caYear :: "nat \<Rightarrow> (by_status, unit) ca_consts" where
  "caYear year =
     (case CALIFORNIA_DATA (if year = 0 then 2025 else year) of
        Some d \<Rightarrow> d | None \<Rightarrow> CALIFORNIA_2025)"

definition nyYear :: "nat \<Rightarrow> (by_status, unit) ny_consts" where
  "nyYear year =
     (case NEWYORK_DATA (if year = 0 then 2025 else year) of
        Some d \<Rightarrow> d | None \<Rightarrow> NEWYORK_2025)"

definition state_year_brackets :: "nat \<Rightarrow> string \<Rightarrow> by_status" where
  "state_year_brackets year st =
     (if st = ''california'' then brackets (caYear year) else brackets (nyYear year))"

definition state_year_deductions :: "nat \<Rightarrow> string \<Rightarrow> (string \<times> rat) list" where
  "state_year_deductions year st =
     (if st = ''california'' then standardDeduction (caYear year)
      else standardDeduction (nyYear year))"



section \<open>wizard.js: the session and the filing computation\<close>

text \<open>
  The record computed by \<open>computeAndRenderTaxes\<close>. The fields of the state pass are
  absent unless the state is the one selected.
\<close>

record filing_computation =
  filingStatus :: string
  totalW2Wages :: rat
  totalNEC :: rat
  totalInterest :: rat
  totalDividends :: rat
  capitalGains :: rat
  otherIncome :: rat
  totalIncome :: rat
  adjustments :: rat
  agi :: rat
  deduction :: rat
  deductionType :: string
  filing_standardDeduction :: rat
  taxableIncome :: rat
  fedIncomeTax :: rat
  seTax :: rat
  totalCredits :: rat
  fedTaxAfterCredits :: rat
  totalFedTax :: rat
  totalFedWithheld :: rat
  fedResult :: rat
  totalStateWithheld :: rat
  homeOfficeDeduction :: rat
  mileageDeduction :: rat
  caStdDeduction :: "rat option"
  caDeduction :: "rat option"
  caTaxableIncome :: "rat option"
  caBaseTax :: "rat option"
  caMHTax :: "rat option"
  caCredits :: "rat option"
  caTax :: "rat option"
  caResult :: "rat option"
  nyStdDeduction :: "rat option"
  nyDeduction :: "rat option"
  nyTaxableIncome :: "rat option"
  nyTax :: "rat option"
  nyCredits :: "rat option"
  nyResult :: "rat option"

text \<open>One entry of box 12 of a W-2, and one income document as the extraction returns it.\<close>

record box12_code =
  code :: string
  amount :: "rat option"

record income_record =
  doc_type :: string
  wages :: "rat option"
  nonemployee_compensation :: "rat option"
  interest_income :: "rat option"
  ordinary_dividends :: "rat option"
  fed_income_tax_withheld :: "rat option"
  state_income_tax_withheld :: "rat option"
  state_tax_withheld :: "rat option"
  box12_codes :: "box12_code list option"

record itemized_entries =
  mortgage :: rat
  salt :: rat
  charitable :: rat
  medical :: rat

text \<open>
  The session object \<open>taxSession\<close>: the fields the computations read. \<open>gapAnswers\<close>,
  \<open>manualEntries\<close> and \<open>credits\<close> are objects used as dictionaries; an answer is the
  boolean of a yes/no button.
\<close>

record tax_session =
  taxYear :: nat
  filingStatus :: string
  stateOfResidence :: "string option"
  childrenUnder17 :: nat
  otherDependents :: nat
  incomes :: "income_record list"
  gapAnswers :: "string \<rightharpoonup> bool"
  manualEntries :: "string \<rightharpoonup> rat"
  deductionType :: string
  itemized :: itemized_entries
  credits :: "string \<rightharpoonup> rat"
  filing :: "filing_computation option"

definition getStateId :: "tax_session \<Rightarrow> string option" where
  "getStateId s =
     (if stateOfResidence s = Some ''CA'' then Some ''california''
      else if stateOfResidence s = Some ''NY'' then Some ''newYork''
      else None)"

text \<open>\<^verbatim>\<open>gapAnswers.key\<close> used as a condition: true when the answer is yes.\<close>

definition answered_yes :: "tax_session \<Rightarrow> string \<Rightarrow> bool" where
  "answered_yes s key = (gapAnswers s key = Some True)"

text \<open>
  \<open>updateCreditsView\<close>: the credits stored in the session for the computation
  (the writes to the page are left out).
\<close>

definition updateCreditsView :: "tax_session \<Rightarrow> tax_session" where
  "updateCreditsView s =
    (let c = getTaxConstants (taxYear s) (getStateId s) (tax_session.filingStatus s);
         ctcPerChild = or_num (ctcAmount (fed c)) 2000;
         ctcTotal = jmul (of_nat (childrenUnder17 s)) ctcPerChild;
         eduCredit =
           (if answered_yes s ''hasTuition'' \<and> truthy (manualEntries s ''tuitionPaid'')
            then min (or_else (manualEntries s ''tuitionPaid'') 0) 2500 else 0);
         renterCredit =
           (if stateOfResidence s = Some ''CA'' \<and> answered_yes s ''isRenter'' then
              (case state c of
                 Some (California ca) \<Rightarrow>
                   (case map_of (rentersCreditAmount ca)
                           (if tax_session.filingStatus s = ''mfj'' then ''mfj'' else ''single'') of
                      Some v \<Rightarrow> v | None \<Rightarrow> 0)
               | Some (NewYork ny) \<Rightarrow> 60
               | None \<Rightarrow> 60)
            else 0);
         evCredit = (if answered_yes s ''hasEV'' then 7500 else 0);
         childcareCredit =
           (if truthy (manualEntries s ''childcareExpenses'') then
              let maxExpense = (if 2 \<le> childrenUnder17 s then 6000 else 3000)
              in js_round (jmul (min (or_else (manualEntries s ''childcareExpenses'') 0) maxExpense)
                            (lit (20/100)))
            else 0)
     in s \<lparr> credits := [''ctc'' \<mapsto> ctcTotal, ''education'' \<mapsto> eduCredit,
                         ''renter'' \<mapsto> renterCredit, ''ev'' \<mapsto> evCredit,
                         ''childcare'' \<mapsto> childcareCredit] \<rparr>)"

text \<open>
  \<^verbatim>\<open>list.filter(i => i.doc_type === t).reduce((sum, i) => sum + (i.field || 0), 0)\<close>
\<close>

definition sum_field :: "(income_record \<Rightarrow> rat option) \<Rightarrow> income_record list \<Rightarrow> rat" where
  "sum_field field xs = foldl (\<lambda>sum i. jadd sum (or_else (field i) 0)) 0 xs"

definition total_of_type :: "string \<Rightarrow> (income_record \<Rightarrow> rat option) \<Rightarrow> tax_session \<Rightarrow> rat" where
  "total_of_type t field s = sum_field field (filter (\<lambda>i. doc_type i = t) (incomes s))"

text \<open>\<^verbatim>\<open>if (entry) adjustments += Math.min(entry, limit)\<close>\<close>

definition add_capped :: "rat \<Rightarrow> rat option \<Rightarrow> rat \<Rightarrow> rat" where
  "add_capped adj entry limit =
     (if truthy entry then jadd adj (min (or_else entry 0) limit) else adj)"

text \<open>
  The body of \<open>computeAndRenderTaxes\<close> up to the assignment of the record to the session.
  The sum over box 12 code D is computed by the source and never used; it is left out.
\<close>

definition computeFiling :: "tax_session \<Rightarrow> filing_computation" where
  "computeFiling s =
    (let stateId = getStateId s;
         c = getTaxConstants (taxYear s) stateId (tax_session.filingStatus s);
         fed = fed c;
         sc = state c;
         totalW2 = total_of_type ''W-2'' wages s;
         totalNEC = total_of_type ''1099-NEC'' nonemployee_compensation s;
         totalINT = total_of_type ''1099-INT'' interest_income s;
         totalDIV = total_of_type ''1099-DIV'' ordinary_dividends s;
         totalCapGains = or_else (manualEntries s ''capitalGains'') 0;
         otherIncome = or_else (manualEntries s ''otherIncome'') 0;
         totalIncome = jadd (jadd (jadd (jadd (jadd totalW2 totalNEC) totalINT) totalDIV)
                         totalCapGains) otherIncome;
         seTaxableIncome = jmul totalNEC (lit (9235/10000));
         seTax = (if 0 < totalNEC
                  then js_round (jmul seTaxableIncome (or_num (seTaxRate fed) (lit (153/1000))))
                  else 0);
         seDeduction = js_floor (jmul seTax (lit (5/10)));
         adj0 = seDeduction;
         adj1 = add_capped adj0 (manualEntries s ''contribution401k'')
                  (or_num (contrib401kLimit fed) 23500);
         adj2 = add_capped adj1 (manualEntries s ''contributionIRA'')
                  (or_num (contribIRALimit fed) 7000);
         adj3 = add_capped adj2 (manualEntries s ''contributionHSA'')
                  (or_num (contribHSASelf fed) 4300);
         adj4 = add_capped adj3 (manualEntries s ''studentLoanInterest'')
                  (or_num (studentLoanMax fed) 2500);
         adj5 = (if truthy (manualEntries s ''seHealthInsurance'')
                 then jadd adj4 (or_else (manualEntries s ''seHealthInsurance'') 0) else adj4);
         adjustments = (if answered_yes s ''isEducator''
                        then jadd adj5 (or_num (educatorExpense fed) 300) else adj5);
         agi = jsub totalIncome adjustments;
         stdDed = stdDeduction fed;
         itemizedTotal =
           (if tax_session.deductionType s = ''itemized''
            then jadd (jadd (jadd (mortgage (itemized s))
                                  (min (salt (itemized s)) (or_num (saltCap fed) 10000)))
                            (charitable (itemized s)))
                      (medical (itemized s))
            else 0);
         deduction = (if tax_session.deductionType s = ''itemized''
                      then itemizedTotal else stdDed);
         homeOfficeDeduction =
           (if truthy (manualEntries s ''homeOfficeSqft'') \<and> 0 < totalNEC
            then min (jmul (or_else (manualEntries s ''homeOfficeSqft'') 0) 5) 1500 else 0);
         mileageDeduction =
           (if truthy (manualEntries s ''businessMiles'') \<and> 0 < totalNEC
            then js_round (jmul (or_else (manualEntries s ''businessMiles'') 0)
                             (or_num (mileageRate fed) (lit (70/100))))
            else 0);
         taxableIncome = max 0 (jsub (jsub (jsub agi deduction) homeOfficeDeduction)
                                  mileageDeduction);
         fedIncomeTax = computeTaxFromBrackets taxableIncome (brackets fed);
         totalCredits = jadd (jadd (jadd (or_else (credits s ''ctc'') 0)
                                         (or_else (credits s ''education'') 0))
                                   (or_else (credits s ''ev'') 0))
                             (or_else (credits s ''childcare'') 0);
         fedTaxAfterCredits = max 0 (jsub fedIncomeTax totalCredits);
         totalFedTax = jadd fedTaxAfterCredits seTax;
         totalFedWithheld = sum_field fed_income_tax_withheld (incomes s);
         fedResult = jsub totalFedWithheld totalFedTax;
         totalStateWithheld =
           foldl (\<lambda>sum i. jadd sum
                    (if truthy (state_income_tax_withheld i)
                     then or_else (state_income_tax_withheld i) 0
                     else or_else (state_tax_withheld i) 0))
             0 (incomes s);
         ca = (case sc of Some (California k) \<Rightarrow>
                 if stateId = Some ''california'' then Some k else None | _ \<Rightarrow> None);
         ny = (case sc of Some (NewYork k) \<Rightarrow>
                 if stateId = Some ''newYork'' then Some k else None | _ \<Rightarrow> None);
         caTaxable = map_option (\<lambda>k. max 0 (jsub agi (stdDeduction k))) ca;
         caBase = map_option (\<lambda>k. computeTaxFromBrackets
                                 (max 0 (jsub agi (stdDeduction k))) (brackets k)) ca;
         mhTax = map_option (\<lambda>k.
                   let t = max 0 (jsub agi (stdDeduction k)) in
                   if mentalHealthThreshold k < t
                   then js_round (jmul (jsub t (mentalHealthThreshold k)) (mentalHealthRate k))
                   else 0) ca;
         caCredits = or_else (credits s ''renter'') 0;
         caTax = (case (caBase, mhTax) of
                    (Some b, Some m) \<Rightarrow> Some (jsub (jadd b m) caCredits) | _ \<Rightarrow> None);
         nyTaxable = map_option (\<lambda>k. max 0 (jsub agi (stdDeduction k))) ny;
         nyTax = map_option (\<lambda>k. computeTaxFromBrackets
                                (max 0 (jsub agi (stdDeduction k))) (brackets k)) ny
     in \<lparr> filing_computation.filingStatus = tax_session.filingStatus s,
          totalW2Wages = totalW2,
          totalNEC = totalNEC,
          totalInterest = totalINT,
          totalDividends = totalDIV,
          capitalGains = totalCapGains,
          otherIncome = otherIncome,
          totalIncome = totalIncome,
          adjustments = adjustments,
          agi = agi,
          deduction = deduction,
          filing_computation.deductionType = tax_session.deductionType s,
          filing_standardDeduction = stdDed,
          taxableIncome = taxableIncome,
          fedIncomeTax = fedIncomeTax,
          seTax = seTax,
          totalCredits = totalCredits,
          fedTaxAfterCredits = fedTaxAfterCredits,
          totalFedTax = totalFedTax,
          totalFedWithheld = totalFedWithheld,
          fedResult = fedResult,
          totalStateWithheld = totalStateWithheld,
          homeOfficeDeduction = homeOfficeDeduction,
          mileageDeduction = mileageDeduction,
          caStdDeduction = map_option stdDeduction ca,
          caDeduction = map_option stdDeduction ca,
          caTaxableIncome = caTaxable,
          caBaseTax = caBase,
          caMHTax = mhTax,
          caCredits = map_option (\<lambda>k. caCredits) ca,
          caTax = caTax,
          caResult = map_option (\<lambda>t. jsub totalStateWithheld t) caTax,
          nyStdDeduction = map_option stdDeduction ny,
          nyDeduction = map_option stdDeduction ny,
          nyTaxableIncome = nyTaxable,
          nyTax = nyTax,
          nyCredits = map_option (\<lambda>k. 0) ny,
          nyResult = map_option (\<lambda>t. jsub totalStateWithheld t) nyTax \<rparr>)"

definition computeAndRenderTaxes :: "tax_session \<Rightarrow> tax_session" where
  "computeAndRenderTaxes s = s \<lparr> filing := Some (computeFiling s) \<rparr>"


section \<open>rules.js: the rules engine\<close>

text \<open>
  A check returns an object with the five fields below, or throws. Any value can be
  thrown, and a thrown value is modelled by what a handler can read of it.
  \<open>Inl (Error m)\<close> is a check that threw a value whose property \<^verbatim>\<open>message\<close> can be read
  and is converted to the text \<open>m\<close> by a template literal: an \<^verbatim>\<open>Error\<close> object with the
  message \<open>m\<close>, as the runtime throws them, or a value without the property, for which
  \<open>m\<close> is the text \<^verbatim>\<open>undefined\<close>. \<open>Inl Null\<close> and \<open>Inl Undefined\<close> are checks that threw
  \<^verbatim>\<open>null\<close> and \<^verbatim>\<open>undefined\<close>: reading any property of these throws a \<^verbatim>\<open>TypeError\<close>.
\<close>

datatype status = Pass | Fail | Warn | Skip

datatype js_error = Error string | Null | Undefined

record check_result =
  status :: status
  currentValue :: string
  expectedValue :: string
  extracted :: bool
  detail :: string

text \<open>
  The descriptive fields of a rule (\<open>rule_id\<close> is the field \<^verbatim>\<open>id\<close>, \<open>rule_type\<close> the field
  \<^verbatim>\<open>type\<close>, \<open>taxCode\<close> the triple of section, form and line), the rule itself, and the
  verdict the engine builds for it: the descriptive fields followed by the fields of the
  check's result.
\<close>

record rule_meta =
  rule_id :: string
  name :: string
  taxCode :: "string \<times> string \<times> string"
  scenarios :: "string list"
  stage :: string
  rule_type :: string
  severity :: string

record 'st rule = rule_meta +
  check :: "'st \<Rightarrow> js_error + check_result"

record verdict = rule_meta +
  status :: status
  currentValue :: string
  expectedValue :: string
  extracted :: bool
  detail :: string

text \<open>The em dash of the source, as its three bytes in UTF-8.\<close>

definition dash :: string where
  "dash = [CHR 0xE2, CHR 0x80, CHR 0x94]"

text \<open>
  The function mapped over the applicable rules: the \<^verbatim>\<open>try\<close> and its \<^verbatim>\<open>catch\<close>. The
  handler builds the detail from \<^verbatim>\<open>e.message\<close>, with no test of \<^verbatim>\<open>e\<close> before it: when
  the check threw \<^verbatim>\<open>null\<close> or \<^verbatim>\<open>undefined\<close> the handler itself throws, and the function
  returns no verdict, which is the value \<open>None\<close>.
\<close>

definition run_rule :: "'st \<Rightarrow> 'st rule \<Rightarrow> verdict option" where
  "run_rule st rule =
     (case check rule st of
        Inr result \<Rightarrow>
          Some \<lparr> rule_id = rule_id rule, name = name rule, taxCode = taxCode rule,
            scenarios = scenarios rule, stage = stage rule, rule_type = rule_type rule,
            severity = severity rule,
            status = check_result.status result,
            currentValue = check_result.currentValue result,
            expectedValue = check_result.expectedValue result,
            extracted = check_result.extracted result,
            detail = check_result.detail result \<rparr>
      | Inl (Error message) \<Rightarrow>
          Some \<lparr> rule_id = rule_id rule, name = name rule, taxCode = taxCode rule,
            scenarios = scenarios rule, stage = stage rule, rule_type = rule_type rule,
            severity = severity rule,
            status = Skip,
            currentValue = dash,
            expectedValue = dash,
            extracted = False,
            detail = ''Error running check: '' @ message \<rparr>
      | Inl Null \<Rightarrow> None
      | Inl Undefined \<Rightarrow> None)"

record summary =
  total :: nat
  passed :: nat
  failed :: nat
  warnings :: nat
  skipped :: nat
  score :: rat

text \<open>
  The summary of a list of verdicts; the source writes the same block twice, for the
  verdicts of type compliance and for all of them.
\<close>

definition points_of :: "verdict \<Rightarrow> rat" where
  "points_of r = (if status r = Pass then 1 else if status r = Warn then lit (5/10) else 0)"

definition summarise :: "verdict list \<Rightarrow> summary" where
  "summarise rs =
     (let scored = filter (\<lambda>r. status r \<noteq> Skip) rs
      in \<lparr> total = length rs,
           passed = length (filter (\<lambda>r. status r = Pass) rs),
           failed = length (filter (\<lambda>r. status r = Fail) rs),
           warnings = length (filter (\<lambda>r. status r = Warn) rs),
           skipped = length (filter (\<lambda>r. status r = Skip) rs),
           score = (if 0 < length scored
                    then let pts = foldl (\<lambda>sum r. jadd sum (points_of r)) 0 scored
                         in js_round (jmul (jdiv pts (of_nat (length scored))) 100)
                    else 0) \<rparr>)"

text \<open>The points of a verdict as exact numbers: 1, one half, 0.\<close>

definition exact_points :: "verdict \<Rightarrow> rat" where
  "exact_points r = (if status r = Pass then 1 else if status r = Warn then 1 / 2 else 0)"

text \<open>
  The result of the engine. The table \<open>RULES\<close> is an argument and \<open>st\<close> is the state
  the checks read; the savings summary and
  the two constant lists of stages and scenarios that the source returns with it are
  left out. A filter that is undefined, null or the empty string selects every rule.
  An exception that leaves the function mapped over the rules leaves \<^verbatim>\<open>map\<close> and the
  engine, which has no handler of its own: the engine then returns nothing, the value
  \<open>None\<close>. The checks have no effect on the state, so the verdicts exist exactly when
  every applicable rule has one (\<open>those\<close>).
\<close>

record engine_result =
  results :: "verdict list"
  summary :: summary
  complianceSummary :: summary

definition applicableRules :: "'st rule list \<Rightarrow> string option \<Rightarrow> 'st rule list" where
  "applicableRules RULES scenarioFilter =
     (case scenarioFilter of
        None \<Rightarrow> RULES
      | Some f \<Rightarrow> if f = [] then RULES else filter (\<lambda>r. f \<in> set (scenarios r)) RULES)"

definition runRulesEngine :: "'st rule list \<Rightarrow> 'st \<Rightarrow> string option \<Rightarrow> engine_result option" where
  "runRulesEngine RULES st scenarioFilter =
     (case those (map (run_rule st) (applicableRules RULES scenarioFilter)) of
        None \<Rightarrow> None
      | Some verdicts \<Rightarrow>
          let complianceResults = filter (\<lambda>r. rule_type r = ''compliance'') verdicts
          in Some \<lparr> results = verdicts,
                    summary = summarise verdicts,
                    complianceSummary = summarise complianceResults \<rparr>)"


section \<open>gap-analysis.js: the gap questions\<close>

text \<open>
  A follow-up question (\<open>gap_id\<close> is the field \<^verbatim>\<open>id\<close>). Its condition is a function of the
  session that returns a boolean or throws.
\<close>

record gap_rule =
  gap_id :: string
  question :: string
  followUp :: string
  condition :: "tax_session \<Rightarrow> js_error + bool"

text \<open>
  \<^verbatim>\<open>s.incomes.some(i => i.doc_type === 'W-2' && i.box12_codes &&
      i.box12_codes.some(c => codes.includes(c.code) && c.amount > 0))\<close>
\<close>

definition has_box12 :: "string list \<Rightarrow> tax_session \<Rightarrow> bool" where
  "has_box12 codes s =
     (\<exists>i \<in> set (incomes s). doc_type i = ''W-2'' \<and>
        (case box12_codes i of
           None \<Rightarrow> False
         | Some cs \<Rightarrow> \<exists>c \<in> set cs. code c \<in> set codes \<and>
                        (case amount c of None \<Rightarrow> False | Some a \<Rightarrow> 0 < a)))"

definition has_doc :: "string \<Rightarrow> tax_session \<Rightarrow> bool" where
  "has_doc t s = (\<exists>i \<in> set (incomes s). doc_type i = t)"

definition gap :: "string \<Rightarrow> string \<Rightarrow> string \<Rightarrow> (tax_session \<Rightarrow> bool) \<Rightarrow> gap_rule" where
  "gap i q f c = \<lparr> gap_id = i, question = q, followUp = f, condition = (\<lambda>s. Inr (c s)) \<rparr>"

definition GAP_RULES :: "gap_rule list" where
  "GAP_RULES = [
     gap ''has401k'' ''Did you contribute to a 401(k) or 403(b) in this tax year?'' ''amount''
       (\<lambda>s. \<not> has_box12 [''D'', ''E'', ''F'', ''G'', ''AA'', ''BB''] s),
     gap ''hasIRA'' ''Did you contribute to a Traditional IRA?'' ''amount''
       (\<lambda>s. True),
     gap ''hasHSA'' ''Did you contribute to a Health Savings Account (HSA)?'' ''amount''
       (\<lambda>s. \<not> has_box12 [''W''] s),
     gap ''hasMortgage'' ''Did you pay mortgage interest this year?'' ''amount_or_upload''
       (\<lambda>s. \<not> has_doc ''1098'' s),
     gap ''isRenter'' ''Do you pay rent in California?'' ''yesno''
       (\<lambda>s. stateOfResidence s = Some ''CA''),
     gap ''hasSALT'' ''Did you pay state and local taxes beyond paycheck withholding?'' ''amount''
       (\<lambda>s. True),
     gap ''hasCharitable'' ''Did you make charitable donations over $250?'' ''amount''
       (\<lambda>s. True),
     gap ''hasStudentLoan'' ''Did you pay student loan interest?'' ''amount_or_upload''
       (\<lambda>s. \<not> has_doc ''1098-E'' s),
     gap ''hasTuition'' ''Did you pay college tuition or education expenses?'' ''amount_or_upload''
       (\<lambda>s. \<not> has_doc ''1098-T'' s),
     gap ''isEducator'' ''Are you a K-12 teacher or educator?'' ''yesno''
       (\<lambda>s. True),
     gap ''hasSoldStocks'' ''Did you sell any stocks, bonds, or cryptocurrency?'' ''amount_or_upload''
       (\<lambda>s. \<not> has_doc ''1099-B'' s),
     gap ''hasSEHealthInsurance'' ''Are you self-employed and pay for your own health insurance?''
       ''amount'' (\<lambda>s. has_doc ''1099-NEC'' s),
     gap ''hasHomeOffice'' ''Do you use part of your home exclusively for business?'' ''amount''
       (\<lambda>s. has_doc ''1099-NEC'' s),
     gap ''hasBusinessMileage'' ''Did you drive for business purposes?'' ''amount''
       (\<lambda>s. has_doc ''1099-NEC'' s),
     gap ''hasEV'' ''Did you purchase or lease a qualifying electric vehicle?'' ''yesno''
       (\<lambda>s. True),
     gap ''hasEnergyImprovements'' ''Did you make energy-efficient home improvements?'' ''yesno''
       (\<lambda>s. True),
     gap ''hasChildcare'' ''Did you pay for childcare or dependent care expenses?'' ''amount''
       (\<lambda>s. 0 < childrenUnder17 s \<or> 0 < otherDependents s),
     gap ''hasOtherIncome'' ''Did you have any other income not covered by documents above?''
       ''amount'' (\<lambda>s. True)]"

text \<open>
  The filter of \<open>getGapQuestions\<close>, over a table given as argument
  (\<open>getGapQuestionsFrom\<close>) and over the table of the source.
\<close>

definition keep_gap :: "tax_session \<Rightarrow> gap_rule \<Rightarrow> bool" where
  "keep_gap session rule =
     (if gapAnswers session (gap_id rule) \<noteq> None then False
      else (case condition rule session of Inr b \<Rightarrow> b | Inl e \<Rightarrow> False))"

definition getGapQuestionsFrom :: "gap_rule list \<Rightarrow> tax_session \<Rightarrow> gap_rule list" where
  "getGapQuestionsFrom table session = filter (keep_gap session) table"

definition getGapQuestions :: "tax_session \<Rightarrow> gap_rule list" where
  "getGapQuestions session = getGapQuestionsFrom GAP_RULES session"


section \<open>Concrete inputs\<close>

text \<open>The session object as wizard.js creates it, before anything is entered.\<close>

definition taxSession :: tax_session where
  "taxSession = \<lparr>
     taxYear = 2025,
     filingStatus = ''single'',
     stateOfResidence = None,
     childrenUnder17 = 0,
     otherDependents = 0,
     incomes = [],
     gapAnswers = Map.empty,
     manualEntries = Map.empty,
     deductionType = ''standard'',
     itemized = \<lparr> mortgage = 0, salt = 0, charitable = 0, medical = 0 \<rparr>,
     credits = Map.empty,
     filing = None \<rparr>"

text \<open>
  Rules whose check ignores the state and returns a fixed outcome, and a gap question
  whose condition throws: the entries of the small tables the engine and the selector
  are run on below.
\<close>

definition plain_result :: "status \<Rightarrow> check_result" where
  "plain_result v = \<lparr> check_result.status = v, check_result.currentValue = ''1'',
     check_result.expectedValue = ''1'', check_result.extracted = True,
     check_result.detail = ''checked'' \<rparr>"

definition fixed_rule :: "string \<Rightarrow> string list \<Rightarrow> js_error + check_result \<Rightarrow> unit rule" where
  "fixed_rule i tags outcome = \<lparr> rule_id = i, name = i, taxCode = (''General'', ''N/A'', ''N/A''),
     scenarios = tags, stage = ''income'', rule_type = ''compliance'', severity = ''error'',
     check = (\<lambda>u. outcome) \<rparr>"

definition throwing_gap :: gap_rule where
  "throwing_gap = \<lparr> gap_id = ''broken'', question = ''?'', followUp = ''yesno'',
     condition = (\<lambda>s. Inl (Error ''s.incomes is undefined'')) \<rparr>"



text \<open>
  The session of the end-to-end scenario: single, 2025, one W-2 with wages 80000 and
  federal withholding 9000, nothing else entered, the standard deduction.
\<close>

definition w2_80000 :: income_record where
  "w2_80000 = \<lparr> doc_type = ''W-2'', wages = Some 80000, nonemployee_compensation = None,
     interest_income = None, ordinary_dividends = None, fed_income_tax_withheld = Some 9000,
     state_income_tax_withheld = None, state_tax_withheld = None, box12_codes = None \<rparr>"

definition session_C1 :: tax_session where
  "session_C1 = taxSession \<lparr> incomes := [w2_80000] \<rparr>"


text \<open>
  Sessions with one 1099-NEC, of 100000 and of -100000, and nothing else entered.
\<close>

definition nec :: "rat \<Rightarrow> income_record" where
  "nec v = \<lparr> doc_type = ''1099-NEC'', wages = None, nonemployee_compensation = Some v,
     interest_income = None, ordinary_dividends = None, fed_income_tax_withheld = None,
     state_income_tax_withheld = None, state_tax_withheld = None, box12_codes = None \<rparr>"

definition session_NEC :: tax_session where
  "session_NEC = taxSession \<lparr> incomes := [nec 100000] \<rparr>"

definition session_NEC_negative :: tax_session where
  "session_NEC_negative = taxSession \<lparr> incomes := [nec (- 100000)] \<rparr>"

text \<open>
  A California renter: single, 2025, one W-2 with wages 8000 and state withholding 100,
  the renter question answered yes, the credits step run. \<open>CA_2025_single\<close> is the
  California entry \<open>getTaxConstants\<close> returns for this session.
\<close>

definition w2_ca :: income_record where
  "w2_ca = \<lparr> doc_type = ''W-2'', wages = Some 8000, nonemployee_compensation = None,
     interest_income = None, ordinary_dividends = None, fed_income_tax_withheld = None,
     state_income_tax_withheld = Some 100, state_tax_withheld = None, box12_codes = None \<rparr>"

definition session_CA_renter :: tax_session where
  "session_CA_renter = updateCreditsView (taxSession \<lparr> stateOfResidence := Some ''CA'',
     incomes := [w2_ca], gapAnswers := [''isRenter'' \<mapsto> True] \<rparr>)"

definition CA_2025_single :: "(bracket list, rat) ca_consts" where
  "CA_2025_single = \<lparr>
     standardDeduction = [(''single'', 5540), (''mfj'', 11080), (''mfs'', 5540), (''hoh'', 11080)],
     brackets = [
        (Width 10412, lit (1/100)), (Width (24684 - 10412), lit (2/100)),
        (Width (38959 - 24684), lit (4/100)), (Width (54081 - 38959), lit (6/100)),
        (Width (68350 - 54081), lit (8/100)), (Width (349137 - 68350), lit (93/1000)),
        (Width (418961 - 349137), lit (103/1000)), (Width (698271 - 418961), lit (113/1000)),
        (Infinity, lit (123/1000))],
     stdDeduction = 5540,
     mentalHealthThreshold = 1000000,
     mentalHealthRate = lit (1/100),
     rentersCreditLimit = [(''single'', 50746), (''mfj'', 101492)],
     rentersCreditAmount = [(''single'', 60), (''mfj'', 120)] \<rparr>"


text \<open>A table of forty rules: twenty-three checks pass and seventeen fail.\<close>

definition table_23_of_40 :: "unit rule list" where
  "table_23_of_40 = replicate 23 (fixed_rule ''p'' [''fed-w2''] (Inr (plain_result Pass)))
                  @ replicate 17 (fixed_rule ''f'' [''fed-w2''] (Inr (plain_result Fail)))"


section \<open>Rounding to binary64\<close>

text \<open>
  The exponent found by \<open>ilog2\<close> is the binary exponent; \<open>fl\<close> is monotone and
  idempotent, and it leaves unchanged every integer multiple of a power of two whose
  multiplier is below \<open>2 ^ 53\<close>: the whole amounts and the halves of the computations.
\<close>

lemma bitlen_pos: "0 < n \<Longrightarrow> 0 < bitlen n"
  by (subst bitlen.simps) simp

lemma bitlen_bounds:
  "0 < n \<Longrightarrow> 2 ^ (bitlen n - 1) \<le> n \<and> n < 2 ^ bitlen n"
proof (induction n rule: bitlen.induct)
  case (1 n)
  show ?case
  proof (cases "n div 2 = 0")
    case True
    with "1.prems" have n: "n = 1" by (cases n) auto
    have "bitlen (Suc 0) = Suc 0" by (simp add: bitlen.simps)
    then show ?thesis by (simp add: n)
  next
    case False
    then have pos: "0 < n div 2" by simp
    have n0: "n \<noteq> 0" using "1.prems" by simp
    from "1.IH" [OF n0 pos]
    have ih: "2 ^ (bitlen (n div 2) - 1) \<le> n div 2" "n div 2 < 2 ^ bitlen (n div 2)"
      by auto
    have b: "bitlen n = Suc (bitlen (n div 2))"
      using n0 by (subst bitlen.simps) simp
    have bp: "0 < bitlen (n div 2)" using pos by (rule bitlen_pos)
    then obtain k where k: "bitlen (n div 2) = Suc k" by (cases "bitlen (n div 2)") auto
    have "2 * 2 ^ k \<le> 2 * (n div 2)" using ih(1) by (simp add: k)
    also have "\<dots> \<le> n" by simp
    finally have lo: "2 ^ (bitlen n - 1) \<le> n" by (simp add: b k)
    have "Suc (n div 2) \<le> 2 ^ bitlen (n div 2)" using ih(2) by simp
    then have "2 * Suc (n div 2) \<le> 2 * 2 ^ bitlen (n div 2)" by simp
    moreover have "n < 2 * Suc (n div 2)" by presburger
    ultimately have hi: "n < 2 ^ bitlen n" by (simp add: b)
    from lo hi show ?thesis ..
  qed
qed

lemma bitlen_bounds_rat:
  assumes "0 < n"
  shows "(2::rat) ^ (bitlen n - 1) \<le> rat_of_nat n" "rat_of_nat n + 1 \<le> 2 ^ bitlen n"
proof -
  from bitlen_bounds [OF assms] have b: "2 ^ (bitlen n - 1) \<le> n" "Suc n \<le> 2 ^ bitlen n"
    by auto
  have "rat_of_nat (2 ^ (bitlen n - 1)) \<le> rat_of_nat n" using b(1) by (rule of_nat_mono)
  then show "(2::rat) ^ (bitlen n - 1) \<le> rat_of_nat n" by simp
  have "rat_of_nat (Suc n) \<le> rat_of_nat (2 ^ bitlen n)" using b(2) by (rule of_nat_mono)
  then show "rat_of_nat n + 1 \<le> 2 ^ bitlen n" by simp
qed

lemma powi_pred: "0 < k \<Longrightarrow> (2::rat) powi (int k - 1) = 2 ^ (k - 1)"
proof -
  assume "0 < k"
  then have "int k - 1 = int (k - 1)" by simp
  then show ?thesis by (simp only: power_int_of_nat)
qed

lemma powi_neg_pred: "0 < k \<Longrightarrow> (2::rat) powi (- int k + 1) = 1 / 2 ^ (k - 1)"
proof -
  assume "0 < k"
  then have "- int k + 1 = - int (k - 1)" by simp
  then show ?thesis by (simp only: power_int_minus_divide power_int_of_nat)
qed

lemma ilog2_bounds:
  assumes "0 < x"
  shows "2 powi (ilog2 x) \<le> x \<and> x < 2 powi (ilog2 x + 1)"
proof (cases "1 \<le> x")
  case True
  define n where "n = nat \<lfloor>x\<rfloor>"
  have fx: "1 \<le> \<lfloor>x\<rfloor>" using True by simp
  then have n1: "0 < n" by (simp add: n_def)
  have cast: "rat_of_nat n = of_int \<lfloor>x\<rfloor>" using fx by (simp add: n_def)
  have nx1: "rat_of_nat n \<le> x" unfolding cast by (rule of_int_floor_le)
  have nx2: "x < rat_of_nat n + 1" unfolding cast using floor_correct [of x] by simp
  have e: "ilog2 x = int (bitlen n) - 1" using True by (simp add: ilog2_def n_def)
  have bp: "0 < bitlen n" using n1 by (rule bitlen_pos)
  note b = bitlen_bounds_rat [OF n1]
  have A: "2 powi (ilog2 x) \<le> x"
    unfolding e powi_pred [OF bp] using b(1) nx1 by (rule order_trans)
  have p: "(2::rat) powi (ilog2 x + 1) = 2 ^ bitlen n" by (simp add: e)
  have B: "x < 2 powi (ilog2 x + 1)" unfolding p using nx2 b(2) by (rule less_le_trans)
  from A B show ?thesis ..
next
  case False
  define y where "y = 1 / x"
  have y1: "1 < y" using False assms by (simp add: y_def)
  define m where "m = nat (\<lceil>y\<rceil> - 1)"
  have "1 < \<lceil>y\<rceil>" using y1 by (simp add: less_ceiling_iff)
  then have cy: "1 \<le> \<lceil>y\<rceil> - 1" by simp
  then have m1: "0 < m" by (simp add: m_def)
  have cast: "rat_of_nat m = of_int \<lceil>y\<rceil> - 1" using cy by (simp add: m_def)
  have my1: "rat_of_nat m < y" unfolding cast using ceiling_correct [of y] by simp
  have my2: "y \<le> rat_of_nat m + 1" unfolding cast by simp
  have e: "ilog2 x = - int (bitlen m)" using False by (simp add: ilog2_def m_def y_def)
  have bp: "0 < bitlen m" using m1 by (rule bitlen_pos)
  note b = bitlen_bounds_rat [OF m1]
  have ylo: "(2::rat) ^ (bitlen m - 1) < y" using b(1) my1 by (rule le_less_trans)
  have yhi: "y \<le> 2 ^ bitlen m" using my2 b(2) by (rule order_trans)
  have hx: "1 / y = x" by (simp add: y_def)
  have ypos: "0 < y" using y1 by simp
  have pe: "(2::rat) powi (ilog2 x) = 1 / 2 ^ bitlen m"
    by (simp add: e power_int_minus_divide)
  have "1 / (2::rat) ^ bitlen m \<le> 1 / y"
    using yhi ypos by (intro divide_left_mono) simp_all
  then have A: "2 powi (ilog2 x) \<le> x"
    unfolding pe hx .
  have "1 / y < 1 / (2::rat) ^ (bitlen m - 1)"
    using ylo by (intro divide_strict_left_mono) (simp_all add: ypos)
  then have B: "x < 2 powi (ilog2 x + 1)"
    unfolding e powi_neg_pred [OF bp] hx .
  from A B show ?thesis ..
qed

lemma two_powi_less_cancel:
  "(2::rat) powi a < 2 powi b \<Longrightarrow> a < b"
proof (rule ccontr)
  assume lt: "(2::rat) powi a < 2 powi b" and "\<not> a < b"
  then have "b \<le> a" by simp
  then have "(2::rat) powi b \<le> 2 powi a" by (rule power_int_increasing) simp
  with lt show False by simp
qed

lemma ilog2_unique:
  assumes "0 < x" "2 powi e \<le> x" "x < 2 powi (e + 1)"
  shows "ilog2 x = e"
proof -
  from ilog2_bounds [OF assms(1)]
  have b: "2 powi (ilog2 x) \<le> x" "x < 2 powi (ilog2 x + 1)" by auto
  have "(2::rat) powi e < 2 powi (ilog2 x + 1)" using assms(2) b(2) by simp
  then have 1: "e < ilog2 x + 1" by (rule two_powi_less_cancel)
  have "(2::rat) powi (ilog2 x) < 2 powi (e + 1)" using assms(3) b(1) by simp
  then have 2: "ilog2 x < e + 1" by (rule two_powi_less_cancel)
  from 1 2 show ?thesis by simp
qed

lemma round_even_of_int [simp]: "round_even (of_int k) = k"
  by (simp add: round_even_def)

lemma round_even_range: "\<lfloor>x\<rfloor> \<le> round_even x \<and> round_even x \<le> \<lfloor>x\<rfloor> + 1"
  by (simp add: round_even_def Let_def)

lemma round_even_mono:
  assumes "x \<le> y"
  shows "round_even x \<le> round_even y"
proof -
  have fg: "\<lfloor>x\<rfloor> \<le> \<lfloor>y\<rfloor>" using assms by (rule floor_mono)
  show ?thesis
  proof (cases "\<lfloor>x\<rfloor> = \<lfloor>y\<rfloor>")
    case False
    with fg have "\<lfloor>x\<rfloor> + 1 \<le> \<lfloor>y\<rfloor>" by simp
    with round_even_range [of x] round_even_range [of y] show ?thesis by linarith
  next
    case True
    have d: "x - of_int \<lfloor>y\<rfloor> \<le> y - of_int \<lfloor>y\<rfloor>" using assms by simp
    show ?thesis using d by (simp add: round_even_def Let_def True)
  qed
qed

lemma fl_zero [simp]: "fl 0 = 0"
  by (simp add: fl_def)

lemma fl_pos:
  "0 < x \<Longrightarrow> fl x = of_int (round_even (x / 2 powi (ilog2 x - 52))) * 2 powi (ilog2 x - 52)"
  by (simp add: fl_def Let_def)

lemma fl_minus: "fl (- x) = - fl x"
  by (simp add: fl_def Let_def sgn_minus)

lemma powi_split: "(2::rat) powi e = 2 ^ 52 * 2 powi (e - 52)"
proof -
  have "(2::rat) powi (52 + (e - 52)) = 2 powi 52 * 2 powi (e - 52)"
    by (rule power_int_add) simp
  moreover have "52 + (e - 52) = e" by simp
  ultimately show ?thesis by (simp only: power_int_numeral)
qed

lemma powi_split_suc: "(2::rat) powi (e + 1) = 2 ^ 53 * 2 powi (e - 52)"
proof -
  have "(2::rat) powi (53 + (e - 52)) = 2 powi 53 * 2 powi (e - 52)"
    by (rule power_int_add) simp
  moreover have "53 + (e - 52) = e + 1" by simp
  ultimately show ?thesis by (simp only: power_int_numeral)
qed

lemma scaled_range:
  assumes "0 < x"
  shows "2 ^ 52 \<le> x / 2 powi (ilog2 x - 52)" "x / 2 powi (ilog2 x - 52) < 2 ^ 53"
proof -
  let ?u = "(2::rat) powi (ilog2 x - 52)"
  have u: "0 < ?u" by simp
  from ilog2_bounds [OF assms]
  have b: "2 ^ 52 * ?u \<le> x" "x < 2 ^ 53 * ?u"
    using powi_split [of "ilog2 x"] powi_split_suc [of "ilog2 x"] by simp_all
  show "2 ^ 52 \<le> x / ?u" using b(1) u by (simp add: pos_le_divide_eq)
  show "x / ?u < 2 ^ 53" using b(2) u by (simp add: pos_divide_less_eq)
qed

lemma mantissa_range:
  assumes "0 < x"
  shows "2 ^ 52 \<le> round_even (x / 2 powi (ilog2 x - 52))"
        "round_even (x / 2 powi (ilog2 x - 52)) \<le> 2 ^ 53"
proof -
  note s = scaled_range [OF assms]
  have "round_even (of_int (2 ^ 52)) \<le> round_even (x / 2 powi (ilog2 x - 52))"
    by (rule round_even_mono) (use s(1) in simp)
  then show "2 ^ 52 \<le> round_even (x / 2 powi (ilog2 x - 52))"
    by (simp only: round_even_of_int)
  have "round_even (x / 2 powi (ilog2 x - 52)) \<le> round_even (of_int (2 ^ 53))"
    by (rule round_even_mono) (use s(2) in simp)
  then show "round_even (x / 2 powi (ilog2 x - 52)) \<le> 2 ^ 53"
    by (simp only: round_even_of_int)
qed








lemma fl_exact_pos:
  assumes k: "0 < k" "k < 2 ^ 53"
  shows "fl (of_int k * 2 powi j) = of_int k * 2 powi j"
proof -
  define x where "x = rat_of_int k * 2 powi j"
  define e where "e = ilog2 x"
  have xpos: "0 < x" using k(1) by (simp add: x_def)
  have "rat_of_int k < of_int (2 ^ 53)" using k(2) by (simp only: of_int_less_iff)
  then have "x < 2 ^ 53 * 2 powi j" by (simp add: x_def)
  also have "\<dots> = 2 powi (53 + j)"
  proof -
    have "(2::rat) powi (53 + j) = 2 powi 53 * 2 powi j" by (rule power_int_add) simp
    then show ?thesis by simp
  qed
  finally have xlt: "x < 2 powi (53 + j)" .
  have "2 powi e \<le> x" using ilog2_bounds [OF xpos] by (simp add: e_def)
  then have "(2::rat) powi e < 2 powi (53 + j)" using xlt by (rule le_less_trans)
  then have "e < 53 + j" by (rule two_powi_less_cancel)
  then have d: "0 \<le> j - e + 52" by simp
  define n where "n = nat (j - e + 52)"
  have jn: "(e - 52) + int n = j" using d by (simp add: n_def)
  have "(2::rat) powi ((e - 52) + int n) = 2 powi (e - 52) * 2 powi (int n)"
    by (rule power_int_add) simp
  then have pj: "(2::rat) powi j = 2 powi (e - 52) * 2 ^ n"
    by (simp only: jn power_int_of_nat)
  have q: "x / 2 powi (e - 52) = of_int (k * 2 ^ n)"
    by (simp add: x_def pj)
  have "fl x = of_int (round_even (x / 2 powi (e - 52))) * 2 powi (e - 52)"
    unfolding e_def using xpos by (rule fl_pos)
  also have "\<dots> = of_int (k * 2 ^ n) * 2 powi (e - 52)"
    by (simp only: q round_even_of_int)
  also have "\<dots> = x" by (simp add: x_def pj)
  finally show ?thesis by (simp only: x_def)
qed

lemma fl_exact:
  assumes "\<bar>k\<bar> < 2 ^ 53"
  shows "fl (of_int k * 2 powi j) = of_int k * 2 powi j"
proof (cases k "0::int" rule: linorder_cases)
  case equal
  then show ?thesis by simp
next
  case greater
  then show ?thesis using assms by (intro fl_exact_pos) simp_all
next
  case less
  then have "0 < - k" "- k < 2 ^ 53" using assms by simp_all
  then have "fl (of_int (- k) * 2 powi j) = of_int (- k) * 2 powi j" by (rule fl_exact_pos)
  then show ?thesis using fl_minus [of "of_int k * 2 powi j"] by simp
qed

lemma fl_idem_pos:
  assumes "0 < x"
  shows "fl (fl x) = fl x"
proof -
  let ?u = "(2::rat) powi (ilog2 x - 52)"
  let ?r = "round_even (x / ?u)"
  note m = mantissa_range [OF assms]
  have f: "fl x = of_int ?r * ?u" using assms by (rule fl_pos)
  show ?thesis
  proof (cases "?r = 2 ^ 53")
    case True
    have "fl x = 2 ^ 53 * ?u" by (simp only: f True) simp
    then have "fl x = of_int 1 * 2 powi (ilog2 x + 1)"
      by (simp only: powi_split_suc [of "ilog2 x"] of_int_1 mult_1)
    moreover have "fl (of_int 1 * 2 powi (ilog2 x + 1)) = of_int 1 * 2 powi (ilog2 x + 1)"
      by (rule fl_exact) simp
    ultimately show ?thesis by simp
  next
    case False
    with m have "0 < ?r" "?r < 2 ^ 53" by simp_all
    then have "fl (of_int ?r * ?u) = of_int ?r * ?u" by (rule fl_exact_pos)
    then show ?thesis by (simp only: f)
  qed
qed

lemma fl_idem [simp]: "fl (fl x) = fl x"
proof (cases x "0::rat" rule: linorder_cases)
  case equal
  then show ?thesis by simp
next
  case greater
  then show ?thesis by (rule fl_idem_pos)
next
  case less
  then have "fl (fl (- x)) = fl (- x)" by (intro fl_idem_pos) simp
  then show ?thesis by (simp add: fl_minus)
qed

lemma fl_of_int: "\<bar>k\<bar> < 2 ^ 53 \<Longrightarrow> fl (of_int k) = of_int k"
  using fl_exact [of k 0] by simp

lemma fl_of_nat: "n < 2 ^ 53 \<Longrightarrow> fl (of_nat n) = of_nat n"
  using fl_of_int [of "int n"] by (simp add: of_nat_less_numeral_power_cancel_iff)

lemma fl_half_int: "\<bar>k\<bar> < 2 ^ 53 \<Longrightarrow> fl (of_int k / 2) = of_int k / 2"
  using fl_exact [of k "-1"] by (simp add: power_int_minus_divide)


lemma fl_numeral [simp]: "(numeral n :: int) < 2 ^ 53 \<Longrightarrow> fl (numeral n) = numeral n"
  using fl_of_int [of "numeral n"] by simp

lemma fl_neg_numeral [simp]:
  "(numeral n :: int) < 2 ^ 53 \<Longrightarrow> fl (- numeral n) = - numeral n"
  using fl_of_int [of "- numeral n"] by simp

lemma fl_one [simp]: "fl 1 = 1"
  using fl_of_int [of 1] by simp

lemma fl_numeral_half [simp]:
  "(numeral n :: int) < 2 ^ 53 \<Longrightarrow> fl (numeral n / 2) = numeral n / 2"
  using fl_half_int [of "numeral n"] by simp



lemma floor_rat_numeral_div [simp]:
  "\<lfloor>numeral a / numeral b :: rat\<rfloor> = numeral a div numeral b"
  by (metis floor_divide_of_int_eq of_int_numeral)

lemma floor_rat_neg_numeral_div [simp]:
  "\<lfloor>- (numeral a / numeral b) :: rat\<rfloor> = - numeral a div numeral b"
  by (metis floor_divide_of_int_eq minus_divide_left of_int_neg_numeral of_int_numeral)

lemma round_even_near:
  assumes "\<bar>x - of_int m\<bar> < 1 / 2"
  shows "round_even x = m"
proof (cases "of_int m \<le> x")
  case True
  with assms have "x < of_int m + 1" by simp
  with True have f: "\<lfloor>x\<rfloor> = m" by (intro floor_unique)
  show ?thesis using assms True by (simp add: round_even_def Let_def f)
next
  case False
  then have lt: "x < of_int m" by simp
  with assms have "of_int (m - 1) \<le> x" "x < of_int (m - 1) + 1" by simp_all
  then have f: "\<lfloor>x\<rfloor> = m - 1" by (intro floor_unique)
  show ?thesis using assms lt by (simp add: round_even_def Let_def f)
qed

lemma fl_cert:
  assumes lo: "2 ^ 52 \<le> x * 2 ^ n" and hi: "x * 2 ^ n < 2 ^ 53"
      and near: "\<bar>x * 2 ^ n - of_int m\<bar> < 1 / 2"
  shows "fl x = of_int m / 2 ^ n"
proof -
  define e where "e = 52 - int n"
  have u: "(2::rat) powi (e - 52) = 1 / 2 ^ n"
    by (simp add: e_def power_int_minus_divide)
  have xpos: "0 < x"
  proof (rule ccontr)
    assume "\<not> 0 < x"
    then have "x * 2 ^ n \<le> 0" by (simp add: mult_le_0_iff)
    with lo show False by simp
  qed
  have "2 ^ 52 * (1 / 2 ^ n) \<le> x" using lo by (simp add: field_simps)
  then have 1: "2 powi e \<le> x" by (simp only: powi_split [of e] u)
  have "x < 2 ^ 53 * (1 / 2 ^ n)" using hi by (simp add: field_simps)
  then have 2: "x < 2 powi (e + 1)" by (simp only: powi_split_suc [of e] u)
  have il: "ilog2 x = e" using xpos 1 2 by (rule ilog2_unique)
  have s: "x / 2 powi (e - 52) = x * 2 ^ n" by (simp add: u)
  have "fl x = of_int (round_even (x / 2 powi (e - 52))) * 2 powi (e - 52)"
    using fl_pos [OF xpos] by (simp only: il)
  also have "\<dots> = of_int m * (1 / 2 ^ n)"
  proof -
    have r: "round_even (x / 2 powi (e - 52)) = m"
      unfolding s using near by (rule round_even_near)
    show ?thesis by (subst r, simp only: u)
  qed
  finally show ?thesis by simp
qed


section \<open>The filing computation\<close>

text \<open>Each field of the record, in terms of the session and of the fields before it.\<close>

lemma filing_fields:
  shows totalW2Wages_eq: "totalW2Wages (computeFiling s) = total_of_type ''W-2'' wages s"
    and totalNEC_eq:
      "totalNEC (computeFiling s) = total_of_type ''1099-NEC'' nonemployee_compensation s"
    and totalInterest_eq:
      "totalInterest (computeFiling s) = total_of_type ''1099-INT'' interest_income s"
    and totalDividends_eq:
      "totalDividends (computeFiling s) = total_of_type ''1099-DIV'' ordinary_dividends s"
    and capitalGains_eq:
      "capitalGains (computeFiling s) = or_else (manualEntries s ''capitalGains'') 0"
    and otherIncome_eq:
      "otherIncome (computeFiling s) = or_else (manualEntries s ''otherIncome'') 0"
    and totalIncome_eq:
      "totalIncome (computeFiling s) =
         jadd (jadd (jadd (jadd (jadd (totalW2Wages (computeFiling s))
                                      (totalNEC (computeFiling s)))
                                (totalInterest (computeFiling s)))
                          (totalDividends (computeFiling s)))
                    (capitalGains (computeFiling s)))
              (otherIncome (computeFiling s))"
    and seTax_eq:
      "seTax (computeFiling s) =
         (if 0 < totalNEC (computeFiling s)
          then js_round (jmul (jmul (totalNEC (computeFiling s)) (lit (9235/10000)))
                 (or_num (seTaxRate (fed (getTaxConstants (taxYear s) (getStateId s) (tax_session.filingStatus s)))) (lit (153/1000))))
          else 0)"
    and adjustments_eq:
      "adjustments (computeFiling s) =
         (let adj0 = js_floor (jmul (seTax (computeFiling s)) (lit (5/10)));
              adj1 = add_capped adj0 (manualEntries s ''contribution401k'')
                      (or_num (contrib401kLimit (fed (getTaxConstants (taxYear s) (getStateId s) (tax_session.filingStatus s)))) 23500);
              adj2 = add_capped adj1 (manualEntries s ''contributionIRA'')
                      (or_num (contribIRALimit (fed (getTaxConstants (taxYear s) (getStateId s) (tax_session.filingStatus s)))) 7000);
              adj3 = add_capped adj2 (manualEntries s ''contributionHSA'')
                      (or_num (contribHSASelf (fed (getTaxConstants (taxYear s) (getStateId s) (tax_session.filingStatus s)))) 4300);
              adj4 = add_capped adj3 (manualEntries s ''studentLoanInterest'')
                      (or_num (studentLoanMax (fed (getTaxConstants (taxYear s) (getStateId s) (tax_session.filingStatus s)))) 2500);
              adj5 = (if truthy (manualEntries s ''seHealthInsurance'')
                     then jadd adj4 (or_else (manualEntries s ''seHealthInsurance'') 0)
                     else adj4)
          in if answered_yes s ''isEducator''
             then jadd adj5 (or_num (educatorExpense (fed (getTaxConstants (taxYear s) (getStateId s) (tax_session.filingStatus s)))) 300) else adj5)"
    and agi_eq:
      "agi (computeFiling s) = jsub (totalIncome (computeFiling s)) (adjustments (computeFiling s))"
    and homeOfficeDeduction_eq:
      "homeOfficeDeduction (computeFiling s) =
         (if truthy (manualEntries s ''homeOfficeSqft'') \<and> 0 < totalNEC (computeFiling s)
          then min (jmul (or_else (manualEntries s ''homeOfficeSqft'') 0) 5) 1500 else 0)"
    and mileageDeduction_eq:
      "mileageDeduction (computeFiling s) =
         (if truthy (manualEntries s ''businessMiles'') \<and> 0 < totalNEC (computeFiling s)
          then js_round (jmul (or_else (manualEntries s ''businessMiles'') 0)
                 (or_num (mileageRate (fed (getTaxConstants (taxYear s) (getStateId s) (tax_session.filingStatus s)))) (lit (70/100))))
          else 0)"
    and taxableIncome_eq:
      "taxableIncome (computeFiling s) =
         max 0 (jsub (jsub (jsub (agi (computeFiling s)) (deduction (computeFiling s)))
                           (homeOfficeDeduction (computeFiling s)))
                     (mileageDeduction (computeFiling s)))"
    and fedIncomeTax_eq:
      "fedIncomeTax (computeFiling s) =
         computeTaxFromBrackets (taxableIncome (computeFiling s)) (brackets (fed (getTaxConstants (taxYear s) (getStateId s) (tax_session.filingStatus s))))"
    and totalCredits_eq:
      "totalCredits (computeFiling s) =
         jadd (jadd (jadd (or_else (credits s ''ctc'') 0) (or_else (credits s ''education'') 0))
                    (or_else (credits s ''ev'') 0))
              (or_else (credits s ''childcare'') 0)"
    and fedTaxAfterCredits_eq:
      "fedTaxAfterCredits (computeFiling s) =
         max 0 (jsub (fedIncomeTax (computeFiling s)) (totalCredits (computeFiling s)))"
    and totalFedTax_eq:
      "totalFedTax (computeFiling s) =
         jadd (fedTaxAfterCredits (computeFiling s)) (seTax (computeFiling s))"
    and totalFedWithheld_eq:
      "totalFedWithheld (computeFiling s) = sum_field fed_income_tax_withheld (incomes s)"
    and fedResult_eq:
      "fedResult (computeFiling s) =
         jsub (totalFedWithheld (computeFiling s)) (totalFedTax (computeFiling s))"
  by (simp_all only: computeFiling_def Let_def filing_computation.simps)

lemma deduction_eq:
  "deduction (computeFiling s) =
     (if tax_session.deductionType s = ''itemized''
      then jadd (jadd (jadd (mortgage (itemized s))
                            (min (salt (itemized s)) (or_num (saltCap (fed (getTaxConstants (taxYear s) (getStateId s) (tax_session.filingStatus s)))) 10000)))
                      (charitable (itemized s)))
                (medical (itemized s))
      else stdDeduction (fed (getTaxConstants (taxYear s) (getStateId s) (tax_session.filingStatus s))))"
  by (cases "tax_session.deductionType s = ''itemized''")
     (simp_all only: computeFiling_def Let_def filing_computation.simps if_True if_False
        simp_thms)


lemma fedTaxAfterCredits_nonneg: "0 \<le> fedTaxAfterCredits (computeFiling s)"
  by (simp add: fedTaxAfterCredits_eq)


subsection \<open>The end-to-end scenario\<close>

lemma fed_2025_single:
  "brackets (fed (getTaxConstants 2025 None ''single'')) = [
        (Width 11925, lit (10/100)), (Width (48475 - 11925), lit (12/100)),
        (Width (103350 - 48475), lit (22/100)), (Width (197300 - 103350), lit (24/100)),
        (Width (250525 - 197300), lit (32/100)), (Width (626350 - 250525), lit (35/100)),
        (Infinity, lit (37/100))]"
  "stdDeduction (fed (getTaxConstants 2025 None ''single'')) = 15000"
  "state (getTaxConstants 2025 None ''single'') = None"
  by (simp_all add: getTaxConstants_def FEDERAL_DATA_def FEDERAL_2025_def lookup_brackets_def
        lookup_amount_def single_brackets_def single_amount_def or_else_def Let_def)

lemma lit_10: "lit (1 / 10) = 3602879701896397 / 36028797018963968"
proof -
  have "fl (1 / 10) = rat_of_int 7205759403792794 / 2 ^ 56"
    by (rule fl_cert) simp_all
  then show ?thesis by (simp add: lit_def)
qed

lemma lit_12: "lit (3 / 25) = 1080863910568919 / 9007199254740992"
proof -
  have "fl (3 / 25) = rat_of_int 8646911284551352 / 2 ^ 56"
    by (rule fl_cert) simp_all
  then show ?thesis by (simp add: lit_def)
qed

lemma lit_22: "lit (11 / 50) = 7926335344172073 / 36028797018963968"
proof -
  have "fl (11 / 50) = rat_of_int 7926335344172073 / 2 ^ 55"
    by (rule fl_cert) simp_all
  then show ?thesis by (simp add: lit_def)
qed

lemma mul_11925: "jmul 11925 (lit (1 / 10)) = 2385 / 2"
proof -
  have "fl (42964340445114534225 / 36028797018963968) = rat_of_int 5244670464491520 / 2 ^ 42"
    by (rule fl_cert) simp_all
  then show ?thesis by (simp add: jmul_def lit_10)
qed

lemma mul_36550: "jmul 36550 (lit (3 / 25)) = 4386"
proof -
  have "fl (19752787965646994725 / 4503599627370496) = rat_of_int 4822457999425536 / 2 ^ 40"
    by (rule fl_cert) simp_all
  then show ?thesis by (simp add: jmul_def lit_12)
qed

lemma mul_16525: "jmul 16525 (lit (11 / 50)) = 7271 / 2"
proof -
  have "fl (130982691562443506325 / 36028797018963968) = rat_of_int 7994549045559296 / 2 ^ 41"
    by (rule fl_cert) simp_all
  then show ?thesis by (simp add: jmul_def lit_22)
qed

lemma tax: "computeTaxFromBrackets 65000 [
        (Width 11925, lit (10/100)), (Width (48475 - 11925), lit (12/100)),
        (Width (103350 - 48475), lit (22/100)), (Width (197300 - 103350), lit (24/100)),
        (Width (250525 - 197300), lit (32/100)), (Width (626350 - 250525), lit (35/100)),
        (Infinity, lit (37/100))] = 9214"
  by (simp add: computeTaxFromBrackets_def min_width_def mul_11925 mul_36550 mul_16525
       jadd_def jsub_def js_round_def)

lemma c1_session:
  "taxYear session_C1 = 2025" "getStateId session_C1 = None"
  "tax_session.filingStatus session_C1 = ''single''"
  "tax_session.deductionType session_C1 = ''standard''"
  "incomes session_C1 = [w2_80000]"
  "manualEntries session_C1 k = None" "credits session_C1 k = None"
  "answered_yes session_C1 k = False"
  by (simp_all add: session_C1_def taxSession_def getStateId_def answered_yes_def)

lemma c1_income:
  "totalW2Wages (computeFiling session_C1) = 80000"
  "totalNEC (computeFiling session_C1) = 0"
  "totalInterest (computeFiling session_C1) = 0"
  "totalDividends (computeFiling session_C1) = 0"
  "capitalGains (computeFiling session_C1) = 0"
  "otherIncome (computeFiling session_C1) = 0"
  "totalFedWithheld (computeFiling session_C1) = 9000"
  by (simp_all add: totalW2Wages_eq totalNEC_eq totalInterest_eq totalDividends_eq
        capitalGains_eq otherIncome_eq totalFedWithheld_eq total_of_type_def sum_field_def
        c1_session w2_80000_def or_else_def jadd_def)

lemma c1_total: "totalIncome (computeFiling session_C1) = 80000"
  by (simp add: totalIncome_eq c1_income jadd_def)

lemma c1_seTax: "seTax (computeFiling session_C1) = 0"
  by (simp add: seTax_eq c1_income)

lemma c1_adjustments: "adjustments (computeFiling session_C1) = 0"
  by (simp add: adjustments_eq c1_seTax c1_session add_capped_def truthy_def jmul_def
        js_floor_def Let_def)

lemma c1_agi: "agi (computeFiling session_C1) = 80000"
  by (simp add: agi_eq c1_total c1_adjustments jsub_def)

lemma c1_deduction: "deduction (computeFiling session_C1) = 15000"
  by (simp add: deduction_eq c1_session fed_2025_single)

lemma c1_extra:
  "homeOfficeDeduction (computeFiling session_C1) = 0"
  "mileageDeduction (computeFiling session_C1) = 0"
  "totalCredits (computeFiling session_C1) = 0"
  by (simp_all add: homeOfficeDeduction_eq mileageDeduction_eq totalCredits_eq c1_session
        truthy_def or_else_def jadd_def)

lemma c1_taxable: "taxableIncome (computeFiling session_C1) = 65000"
  by (simp add: taxableIncome_eq c1_agi c1_deduction c1_extra jsub_def)

lemma c1_tax: "fedIncomeTax (computeFiling session_C1) = 9214"
  by (simp only: fedIncomeTax_eq c1_taxable c1_session fed_2025_single tax)

lemma c1_result:
  "fedTaxAfterCredits (computeFiling session_C1) = 9214"
  "totalFedTax (computeFiling session_C1) = 9214"
  "fedResult (computeFiling session_C1) = - 214"
  by (simp_all add: fedTaxAfterCredits_eq totalFedTax_eq fedResult_eq c1_tax c1_extra c1_seTax
        c1_income jsub_def jadd_def)

text \<open>
  C1 (end-to-end scenario), as the specification states it: adjusted gross income 80000,
  taxable income 65000, federal income tax 9215 and a net federal result of -215. The
  computation does not return these values: its federal income tax is 9214, the sum
  1192.5 + 4386 + 3635.5 of the three brackets, rounded once at the end.
\<close>

theorem end_to_end_as_stated_fails:
  "\<not> (agi (computeFiling session_C1) = 80000
      \<and> taxableIncome (computeFiling session_C1) = 65000
      \<and> fedIncomeTax (computeFiling session_C1) = 9215
      \<and> fedResult (computeFiling session_C1) = - 215)"
  by (simp add: c1_tax)

text \<open>
  C1, amended: for that session the computation returns adjusted gross income 80000,
  taxable income 65000, federal income tax 9214 and the net federal result
  9000 - 9214 = -214 (214 owed).
\<close>

theorem end_to_end_scenario:
  "agi (computeFiling session_C1) = 80000
   \<and> taxableIncome (computeFiling session_C1) = 65000
   \<and> fedIncomeTax (computeFiling session_C1) = 9214
   \<and> fedResult (computeFiling session_C1) = - 214"
  by (simp add: c1_agi c1_taxable c1_tax c1_result)



text \<open>
  C4 (filing identities). For every session the record satisfies: taxable income is the
  larger of 0 and AGI - deduction - home-office deduction - mileage deduction; the federal
  income tax is the bracket tax on the taxable income; the tax after credits is the larger
  of 0 and income tax - total credits, hence never negative; the total federal tax is the
  tax after credits + SE tax. The subtractions and the addition are those of the program.
\<close>

theorem filing_identities:
  "taxableIncome (computeFiling s) =
     max 0 (jsub (jsub (jsub (agi (computeFiling s)) (deduction (computeFiling s)))
                       (homeOfficeDeduction (computeFiling s)))
                 (mileageDeduction (computeFiling s)))
   \<and> fedIncomeTax (computeFiling s) =
       computeTaxFromBrackets (taxableIncome (computeFiling s)) (brackets (fed (getTaxConstants (taxYear s) (getStateId s) (tax_session.filingStatus s))))
   \<and> fedTaxAfterCredits (computeFiling s) =
       max 0 (jsub (fedIncomeTax (computeFiling s)) (totalCredits (computeFiling s)))
   \<and> 0 \<le> fedTaxAfterCredits (computeFiling s)
   \<and> totalFedTax (computeFiling s) =
       jadd (fedTaxAfterCredits (computeFiling s)) (seTax (computeFiling s))"
  by (intro conjI taxableIncome_eq fedIncomeTax_eq fedTaxAfterCredits_eq
        fedTaxAfterCredits_nonneg totalFedTax_eq)


subsection \<open>Self-employment tax\<close>

lemma lit_9235: "lit (1847 / 2000) = 4159074255876653 / 4503599627370496"
proof -
  have "fl (1847 / 2000) = rat_of_int 8318148511753306 / 2 ^ 53"
    by (rule fl_cert) simp_all
  then show ?thesis by (simp add: lit_def)
qed

lemma lit_153: "lit (153 / 1000) = 5512405943901487 / 36028797018963968"
proof -
  have "fl (153 / 1000) = rat_of_int 5512405943901487 / 2 ^ 55"
    by (rule fl_cert) simp_all
  then show ?thesis by (simp add: lit_def)
qed

lemma mul_100000: "jmul 100000 (lit (1847 / 2000)) = 92350"
proof -
  have "fl (12997107049614540625 / 140737488355328) = rat_of_int 6346243676569600 / 2 ^ 36"
    by (rule fl_cert) simp_all
  then show ?thesis by (simp add: jmul_def lit_9235)
qed

lemma mul_92350: "jmul 92350 (lit (153 / 1000)) = 3883901130060595 / 274877906944"
proof -
  have "fl (254535344459651162225 / 18014398509481984) = rat_of_int 7767802260121190 / 2 ^ 39"
    by (rule fl_cert) simp_all
  then show ?thesis by (simp add: jmul_def lit_153)
qed


lemma jmul_minus_left: "jmul (- a) b = - jmul a b"
proof -
  have "jmul (- a) b = fl (- (a * b))" by (simp add: jmul_def)
  also have "\<dots> = - fl (a * b)" by (rule fl_minus)
  finally show ?thesis by (simp add: jmul_def)
qed

lemma seTaxRate_fed:
  "seTaxRate (fed (getTaxConstants y st fs)) = lit (153 / 1000)"
  by (simp add: getTaxConstants_def FEDERAL_DATA_def FEDERAL_2023_def FEDERAL_2024_def
        FEDERAL_2025_def Let_def)

lemma lit_153_nonzero: "lit (153 / 1000) \<noteq> 0"
  by (simp add: lit_153)

lemma half_exact: "lit (1 / 2) = 1 / 2"
  using fl_half_int [of 1] by (simp add: lit_def)

lemma nec_session:
  "incomes session_NEC = [nec 100000]" "manualEntries session_NEC k = None"
  "answered_yes session_NEC k = False"
  "incomes session_NEC_negative = [nec (- 100000)]"
  by (simp_all add: session_NEC_def session_NEC_negative_def taxSession_def answered_yes_def)

lemma nec_total:
  "totalNEC (computeFiling session_NEC) = 100000"
  "totalNEC (computeFiling session_NEC_negative) = - 100000"
  by (simp_all add: totalNEC_eq total_of_type_def sum_field_def nec_session nec_def
        or_else_def jadd_def)

lemma nec_seTax: "seTax (computeFiling session_NEC) = 14130"
  by (simp add: seTax_eq nec_total seTaxRate_fed or_num_def lit_153_nonzero mul_100000 mul_92350
        js_round_def)

lemma nec_adjustments: "adjustments (computeFiling session_NEC) = 7065"
  by (simp add: adjustments_eq nec_seTax nec_session add_capped_def truthy_def half_exact
        jmul_def js_floor_def Let_def)

lemma neg_seTax: "seTax (computeFiling session_NEC_negative) = 0"
  by (simp add: seTax_eq nec_total)

lemma neg_formula:
  "js_round (jmul (jmul (totalNEC (computeFiling session_NEC_negative)) (lit (9235 / 10000)))
                  (lit (153 / 1000))) = - 14130"
  by (simp add: nec_total jmul_minus_left mul_100000 mul_92350 js_round_def)

text \<open>
  C9 (SE tax formula), as the specification states it, for every session: the SE tax is
  round(0.9235 * SE income * rate). For the session whose one 1099-NEC reports -100000
  the formula gives -14130 and the computation returns 0.
\<close>

theorem se_tax_negative_income:
  "totalNEC (computeFiling session_NEC_negative) = - 100000
   \<and> seTax (computeFiling session_NEC_negative) = 0
   \<and> js_round (jmul (jmul (totalNEC (computeFiling session_NEC_negative)) (lit (9235 / 10000)))
                    (lit (153 / 1000))) = - 14130
   \<and> seTax (computeFiling session_NEC_negative) \<noteq>
       js_round (jmul (jmul (totalNEC (computeFiling session_NEC_negative)) (lit (9235 / 10000)))
                    (lit (153 / 1000)))"
  using neg_formula by (simp add: nec_total neg_seTax)

text \<open>
  C9, amended. For every session: the self-employment income is the total of the
  amounts of nonemployee compensation of the 1099-NEC records of the session, added in
  their order; when this total is positive the SE tax is round(0.9235 * total * rate),
  and otherwise it is 0; the rate is 0.153 in every year of the table; the SE deduction
  is floor(0.5 * SE tax), the value the adjustments start from, to which the entries made
  by hand and the educator expense are added; the adjustments are equal to it when
  nothing is entered by hand and the educator question is not answered yes. For a total
  of 100000 the SE tax is 14130 and the SE deduction 7065.
\<close>

theorem se_tax_formula:
  "totalNEC (computeFiling s) =
     foldl (\<lambda>sum i. jadd sum (or_else (nonemployee_compensation i) 0)) 0
       (filter (\<lambda>i. doc_type i = ''1099-NEC'') (incomes s))
   \<and> seTax (computeFiling s) =
     (if 0 < totalNEC (computeFiling s)
      then js_round (jmul (jmul (totalNEC (computeFiling s)) (lit (9235 / 10000)))
                          (seTaxRate (fed (getTaxConstants (taxYear s) (getStateId s) (tax_session.filingStatus s)))))
      else 0)
   \<and> seTaxRate (fed (getTaxConstants (taxYear s) (getStateId s) (tax_session.filingStatus s))) = lit (153 / 1000)
   \<and> adjustments (computeFiling s) =
         (let adj0 = js_floor (jmul (seTax (computeFiling s)) (lit (5/10)));
              adj1 = add_capped adj0 (manualEntries s ''contribution401k'')
                      (or_num (contrib401kLimit (fed (getTaxConstants (taxYear s) (getStateId s) (tax_session.filingStatus s)))) 23500);
              adj2 = add_capped adj1 (manualEntries s ''contributionIRA'')
                      (or_num (contribIRALimit (fed (getTaxConstants (taxYear s) (getStateId s) (tax_session.filingStatus s)))) 7000);
              adj3 = add_capped adj2 (manualEntries s ''contributionHSA'')
                      (or_num (contribHSASelf (fed (getTaxConstants (taxYear s) (getStateId s) (tax_session.filingStatus s)))) 4300);
              adj4 = add_capped adj3 (manualEntries s ''studentLoanInterest'')
                      (or_num (studentLoanMax (fed (getTaxConstants (taxYear s) (getStateId s) (tax_session.filingStatus s)))) 2500);
              adj5 = (if truthy (manualEntries s ''seHealthInsurance'')
                     then jadd adj4 (or_else (manualEntries s ''seHealthInsurance'') 0)
                     else adj4)
          in if answered_yes s ''isEducator''
             then jadd adj5 (or_num (educatorExpense (fed (getTaxConstants (taxYear s) (getStateId s) (tax_session.filingStatus s)))) 300) else adj5)
   \<and> (manualEntries s = Map.empty \<longrightarrow> \<not> answered_yes s ''isEducator'' \<longrightarrow>
        adjustments (computeFiling s) = js_floor (jmul (seTax (computeFiling s)) (lit (5 / 10))))
   \<and> seTax (computeFiling session_NEC) = 14130
   \<and> adjustments (computeFiling session_NEC) = 7065"
proof -
  have total: "totalNEC (computeFiling s) =
     foldl (\<lambda>sum i. jadd sum (or_else (nonemployee_compensation i) 0)) 0
       (filter (\<lambda>i. doc_type i = ''1099-NEC'') (incomes s))"
    by (simp only: totalNEC_eq total_of_type_def sum_field_def)
  have rate: "seTaxRate (fed (getTaxConstants (taxYear s) (getStateId s) (tax_session.filingStatus s))) = lit (153 / 1000)"
    by (rule seTaxRate_fed)
  have tax: "seTax (computeFiling s) =
     (if 0 < totalNEC (computeFiling s)
      then js_round (jmul (jmul (totalNEC (computeFiling s)) (lit (9235 / 10000)))
                          (seTaxRate (fed (getTaxConstants (taxYear s) (getStateId s) (tax_session.filingStatus s)))))
      else 0)"
    by (simp only: seTax_eq [of s] rate or_num_def lit_153_nonzero if_False)
  have ded: "manualEntries s = Map.empty \<longrightarrow> \<not> answered_yes s ''isEducator'' \<longrightarrow>
      adjustments (computeFiling s) = js_floor (jmul (seTax (computeFiling s)) (lit (5 / 10)))"
    by (simp add: adjustments_eq [of s] add_capped_def truthy_def Let_def)
  show ?thesis
    by (intro conjI) (rule total tax rate adjustments_eq ded nec_seTax nec_adjustments)+
qed

theorem se_tax_formula_witness:
  "manualEntries session_NEC = Map.empty \<and> \<not> answered_yes session_NEC ''isEducator''
   \<and> totalNEC (computeFiling session_NEC) = 100000
   \<and> 0 < totalNEC (computeFiling session_NEC)
   \<and> seTax (computeFiling session_NEC)
       = js_round (jmul (jmul 100000 (lit (9235 / 10000))) (lit (153 / 1000)))
   \<and> seTax (computeFiling session_NEC) = 14130
   \<and> adjustments (computeFiling session_NEC) = js_floor (jmul 14130 (lit (5 / 10)))
   \<and> adjustments (computeFiling session_NEC) = 7065"
proof -
  have h1: "manualEntries session_NEC = Map.empty"
    by (simp add: session_NEC_def taxSession_def)
  have h2: "\<not> answered_yes session_NEC ''isEducator''"
    by (simp add: nec_session)
  note inst = se_tax_formula [of session_NEC]
  note c1 = inst [THEN conjunct1]
  note c2 = inst [THEN conjunct2, THEN conjunct1]
  note c3 = inst [THEN conjunct2, THEN conjunct2, THEN conjunct1]
  note c5 = inst [THEN conjunct2, THEN conjunct2, THEN conjunct2, THEN conjunct2,
                  THEN conjunct1]
  note c6 = inst [THEN conjunct2, THEN conjunct2, THEN conjunct2, THEN conjunct2,
                  THEN conjunct2, THEN conjunct1]
  note c7 = inst [THEN conjunct2, THEN conjunct2, THEN conjunct2, THEN conjunct2,
                  THEN conjunct2, THEN conjunct2]
  have t0: "totalNEC (computeFiling session_NEC) = 100000"
    using c1 by (simp add: nec_session nec_def or_else_def jadd_def)
  have h3: "0 < totalNEC (computeFiling session_NEC)"
    by (simp add: t0)
  have t1: "seTax (computeFiling session_NEC)
       = js_round (jmul (jmul 100000 (lit (9235 / 10000))) (lit (153 / 1000)))"
    using c2 by (simp add: c3 t0)
  have t2: "seTax (computeFiling session_NEC) = 14130"
    by (rule c6)
  have "adjustments (computeFiling session_NEC)
          = js_floor (jmul (seTax (computeFiling session_NEC)) (lit (5 / 10)))"
    using c5 h1 h2 by blast
  then have d1: "adjustments (computeFiling session_NEC) = js_floor (jmul 14130 (lit (5 / 10)))"
    by (simp only: t2)
  have d2: "adjustments (computeFiling session_NEC) = 7065"
    by (rule c7)
  from h1 h2 t0 h3 t1 t2 d1 d2 show ?thesis by blast
qed


subsection \<open>The state pass\<close>

lemma state_fields:
  shows caTax_eq:
      "caBaseTax (computeFiling s) = Some b \<Longrightarrow> caMHTax (computeFiling s) = Some m \<Longrightarrow>
       caCredits (computeFiling s) = Some c \<Longrightarrow>
       caTax (computeFiling s) = Some (jsub (jadd b m) c)"
    and caResult_eq:
      "caTax (computeFiling s) = Some t \<Longrightarrow>
       caResult (computeFiling s) = Some (jsub (totalStateWithheld (computeFiling s)) t)"
  by (simp_all only: computeFiling_def Let_def filing_computation.simps)
     (auto split: option.splits state_constants.splits if_splits prod.splits)

lemma ca_fields:
  assumes "state (getTaxConstants (taxYear s) (getStateId s) (tax_session.filingStatus s))
             = Some (California k)"
      and "getStateId s = Some ''california''"
  shows "caTaxableIncome (computeFiling s) = Some (max 0 (jsub (agi (computeFiling s)) (stdDeduction k)))"
    and "caBaseTax (computeFiling s) =
           Some (computeTaxFromBrackets (max 0 (jsub (agi (computeFiling s)) (stdDeduction k)))
                   (brackets k))"
    and "caMHTax (computeFiling s) =
           Some (let t = max 0 (jsub (agi (computeFiling s)) (stdDeduction k)) in
                 if mentalHealthThreshold k < t
                 then js_round (jmul (jsub t (mentalHealthThreshold k)) (mentalHealthRate k))
                 else 0)"
    and "caCredits (computeFiling s) = Some (or_else (credits s ''renter'') 0)"
  using assms
  by (simp_all only: computeFiling_def Let_def filing_computation.simps option.case
        state_constants.case if_True option.map simp_thms)

lemma lit_1: "lit (1 / 100) = 5764607523034235 / 576460752303423488"
proof -
  have "fl (1 / 100) = rat_of_int 5764607523034235 / 2 ^ 59"
    by (rule fl_cert) simp_all
  then show ?thesis by (simp add: lit_def)
qed

lemma mul_2460: "jmul 2460 (lit (1 / 100)) = 3462142213541069 / 140737488355328"
proof -
  have "fl (3545233626666054525 / 144115188075855872) = rat_of_int 6924284427082138 / 2 ^ 48"
    by (rule fl_cert) simp_all
  then show ?thesis by (simp add: jmul_def lit_1)
qed

lemma ca_2025_single:
  "state (getTaxConstants 2025 (Some ''california'') ''single'') = Some (California CA_2025_single)"
  "stdDeduction (fed (getTaxConstants 2025 (Some ''california'') ''single'')) = 15000"
  "ctcAmount (fed (getTaxConstants 2025 (Some ''california'') ''single'')) = 2000"
  by (simp_all add: getTaxConstants_def FEDERAL_DATA_def FEDERAL_2025_def CALIFORNIA_DATA_def
        CALIFORNIA_2025_def CA_2025_single_def lookup_brackets_def
        lookup_amount_def single_brackets_def single_amount_def or_else_def Let_def)

lemma ca_session:
  "taxYear session_CA_renter = 2025" "getStateId session_CA_renter = Some ''california''"
  "tax_session.filingStatus session_CA_renter = ''single''"
  "tax_session.deductionType session_CA_renter = ''standard''"
  "incomes session_CA_renter = [w2_ca]"
  "manualEntries session_CA_renter k = None"
  "answered_yes session_CA_renter ''isEducator'' = False"
  "credits session_CA_renter ''renter'' = Some 60"
  by (simp_all add: session_CA_renter_def updateCreditsView_def taxSession_def getStateId_def
        answered_yes_def ca_2025_single CA_2025_single_def Let_def)

lemma ca_agi: "agi (computeFiling session_CA_renter) = 8000"
  by (simp add: agi_eq totalIncome_eq totalW2Wages_eq totalNEC_eq totalInterest_eq
        totalDividends_eq capitalGains_eq otherIncome_eq adjustments_eq seTax_eq
        total_of_type_def sum_field_def ca_session w2_ca_def or_else_def truthy_def
        add_capped_def half_exact jadd_def jsub_def jmul_def js_floor_def Let_def)

lemma ca_withheld: "totalStateWithheld (computeFiling session_CA_renter) = 100"
  by (simp only: computeFiling_def Let_def filing_computation.simps ca_session)
     (simp add: w2_ca_def truthy_def or_else_def jadd_def)

lemma fl_24_6: "fl (3462142213541069 / 140737488355328) = 3462142213541069 / 140737488355328"
proof -
  have "fl (3462142213541069 / 140737488355328) = rat_of_int 6924284427082138 / 2 ^ 48"
    by (rule fl_cert) simp_all
  then show ?thesis by simp
qed

lemma ca_base: "computeTaxFromBrackets 2460 (brackets CA_2025_single) = 25"
  by (simp add: computeTaxFromBrackets_def CA_2025_single_def min_width_def mul_2460 fl_24_6
        jadd_def jsub_def js_round_def)

lemma ca_values:
  "caTaxableIncome (computeFiling session_CA_renter) = Some 2460"
  "caBaseTax (computeFiling session_CA_renter) = Some 25"
  "caMHTax (computeFiling session_CA_renter) = Some 0"
  "caCredits (computeFiling session_CA_renter) = Some 60"
  using ca_fields [of session_CA_renter CA_2025_single]
  by (simp_all add: ca_session ca_2025_single ca_agi ca_base jsub_def or_else_def
        CA_2025_single_def [THEN arg_cong, of stdDeduction]
        CA_2025_single_def [THEN arg_cong, of mentalHealthThreshold])

lemma ca_tax: "caTax (computeFiling session_CA_renter) = Some (- 35)"
  using caTax_eq [of session_CA_renter 25 0 60] by (simp add: ca_values jadd_def jsub_def)

lemma ca_result: "caResult (computeFiling session_CA_renter) = Some 135"
  using caResult_eq [OF ca_tax] by (simp add: ca_withheld jsub_def)

text \<open>
  C10 (the California tax is not floored). For every session the California tax is the
  base bracket tax + the Mental Health surtax - the credits, with no clamp, whereas the
  federal tax after credits is never negative. For the renter of \<open>session_CA_renter\<close>
  (state taxable income 2460, bracket tax 25, no surtax, renter's credit 60) the
  California tax is -35 and the state result 135 exceeds the state withholding 100.
\<close>

theorem california_tax_not_floored:
  "(\<forall>b m c. caBaseTax (computeFiling s) = Some b \<longrightarrow> caMHTax (computeFiling s) = Some m \<longrightarrow>
        caCredits (computeFiling s) = Some c \<longrightarrow>
        caTax (computeFiling s) = Some (jsub (jadd b m) c)
        \<and> caResult (computeFiling s)
            = Some (jsub (totalStateWithheld (computeFiling s)) (jsub (jadd b m) c)))
   \<and> 0 \<le> fedTaxAfterCredits (computeFiling s)
   \<and> caTaxableIncome (computeFiling session_CA_renter) = Some 2460
   \<and> caTax (computeFiling session_CA_renter) = Some (- 35)
   \<and> totalStateWithheld (computeFiling session_CA_renter) = 100
   \<and> caResult (computeFiling session_CA_renter) = Some 135"
  using caTax_eq [of s] caResult_eq [of s] fedTaxAfterCredits_nonneg [of s]
    ca_values(1) ca_tax ca_withheld ca_result
  by blast

theorem california_tax_not_floored_witness:
  "caBaseTax (computeFiling session_CA_renter) = Some 25
   \<and> caMHTax (computeFiling session_CA_renter) = Some 0
   \<and> caCredits (computeFiling session_CA_renter) = Some 60
   \<and> caTax (computeFiling session_CA_renter) = Some (jsub (jadd 25 0) 60)
   \<and> jsub (jadd 25 0) 60 = - 35
   \<and> caResult (computeFiling session_CA_renter) = Some (jsub 100 (- 35))
   \<and> jsub 100 (- 35) = 135"
  using california_tax_not_floored [of session_CA_renter]
  by (simp add: ca_values jadd_def jsub_def)


section \<open>The bracket calculator\<close>










lemma div_23_40: "jdiv 23 40 = 2589569785738035 / 4503599627370496"
proof -
  have "fl (23 / 40) = rat_of_int 5179139571476070 / 2 ^ 53"
    by (rule fl_cert) simp_all
  then show ?thesis by (simp add: jdiv_def)
qed

lemma mul_score: "jmul (2589569785738035 / 4503599627370496) 100 = 8092405580431359 / 140737488355328"
proof -
  have "fl (64739244643450875 / 1125899906842624) = rat_of_int 8092405580431359 / 2 ^ 47"
    by (rule fl_cert) simp_all
  then show ?thesis by (simp add: jmul_def)
qed

lemma div_2300_40: "jdiv 2300 40 = 115 / 2"
proof -
  have "fl (115 / 2) = rat_of_int 8092405580431360 / 2 ^ 47"
    by (rule fl_cert) simp_all
  then show ?thesis by (simp add: jdiv_def)
qed


lemma floor_rat_one_div [simp]:
  "\<lfloor>1 / numeral b :: rat\<rfloor> = 1 div numeral b"
  by (metis floor_divide_of_int_eq of_int_1 of_int_numeral)







section \<open>The state constants\<close>

lemma state_brackets_resolved:
  "state_brackets (getTaxConstants yr (Some ''california'') fs)
     = Some (lookup_brackets (brackets (caYear yr))
               (if (if fs = [] then ''single'' else fs) = ''mfj''
                   \<or> (if fs = [] then ''single'' else fs) = ''qss'' then ''mfj'' else ''single'')
               (single_brackets (brackets (caYear yr))))"
  "state_brackets (getTaxConstants yr (Some ''newYork'') fs)
     = Some (lookup_brackets (brackets (nyYear yr))
               (if (if fs = [] then ''single'' else fs) = ''mfj''
                   \<or> (if fs = [] then ''single'' else fs) = ''qss'' then ''mfj'' else ''single'')
               (single_brackets (brackets (nyYear yr))))"
  by (simp_all add: getTaxConstants_def state_brackets_def Let_def caYear_def nyYear_def)

lemma state_year_entries:
  assumes "st = ''california'' \<or> st = ''newYork''"
  shows "map_of (state_year_brackets yr st) ''single'' \<noteq> None"
    and "map_of (state_year_brackets yr st) ''mfj'' \<noteq> None"
    and "map_of (state_year_brackets yr st) ''single''
           \<noteq> map_of (state_year_brackets yr st) ''mfj''"
  using assms
  by (auto simp: state_year_brackets_def caYear_def nyYear_def
        CALIFORNIA_DATA_def NEWYORK_DATA_def
        CALIFORNIA_2023_def CALIFORNIA_2024_def CALIFORNIA_2025_def
        NEWYORK_2023_def NEWYORK_2024_def NEWYORK_2025_def)

lemma lookup_brackets_found:
  "map_of t k \<noteq> None \<Longrightarrow> Some (lookup_brackets t k d) = map_of t k"
  by (auto simp: lookup_brackets_def)

lemma state_brackets_own:
  assumes st: "st = ''california'' \<or> st = ''newYork''"
  shows "state_brackets (getTaxConstants yr (Some st) ''single'')
           = map_of (state_year_brackets yr st) ''single''
       \<and> state_brackets (getTaxConstants yr (Some st) ''mfs'')
           = map_of (state_year_brackets yr st) ''single''
       \<and> state_brackets (getTaxConstants yr (Some st) ''hoh'')
           = map_of (state_year_brackets yr st) ''single''
       \<and> state_brackets (getTaxConstants yr (Some st) ''mfj'')
           = map_of (state_year_brackets yr st) ''mfj''
       \<and> state_brackets (getTaxConstants yr (Some st) ''qss'')
           = map_of (state_year_brackets yr st) ''mfj''"
proof -
  note e = state_year_entries [OF st, of yr]
  consider "st = ''california''" | "st = ''newYork''" using st by blast
  then show ?thesis
  proof cases
    case 1
    have t: "state_year_brackets yr ''california'' = brackets (caYear yr)"
      by (simp add: state_year_brackets_def)
    show ?thesis
      using e unfolding 1 state_brackets_resolved
      by (simp add: t lookup_brackets_found)
  next
    case 2
    have t: "state_year_brackets yr ''newYork'' = brackets (nyYear yr)"
      by (simp add: state_year_brackets_def)
    show ?thesis
      using e unfolding 2 state_brackets_resolved
      by (simp add: t lookup_brackets_found)
  qed
qed

lemma ca_std:
  "standardDeduction (case CALIFORNIA_DATA yr of Some d \<Rightarrow> d | None \<Rightarrow> CALIFORNIA_2025)
     = [(''single'', 5363), (''mfj'', 10726), (''mfs'', 5363), (''hoh'', 10726)]
   \<or> standardDeduction (case CALIFORNIA_DATA yr of Some d \<Rightarrow> d | None \<Rightarrow> CALIFORNIA_2025)
     = [(''single'', 5540), (''mfj'', 11080), (''mfs'', 5540), (''hoh'', 11080)]"
  by (simp add: CALIFORNIA_DATA_def CALIFORNIA_2023_def CALIFORNIA_2024_def CALIFORNIA_2025_def)

lemma ny_std:
  "standardDeduction (case NEWYORK_DATA yr of Some d \<Rightarrow> d | None \<Rightarrow> NEWYORK_2025)
     = [(''single'', 8000), (''mfj'', 16050), (''mfs'', 8000), (''hoh'', 11200)]"
  by (simp add: NEWYORK_DATA_def NEWYORK_2023_def NEWYORK_2024_def NEWYORK_2025_def)

lemma state_std_ca:
  "state_stdDeduction (getTaxConstants yr (Some ''california'') fs)
     = Some (lookup_amount
         (standardDeduction (case CALIFORNIA_DATA (if yr = 0 then 2025 else yr) of
                               Some d \<Rightarrow> d | None \<Rightarrow> CALIFORNIA_2025))
         (if fs = [] then ''single'' else fs)
         (single_amount
           (standardDeduction (case CALIFORNIA_DATA (if yr = 0 then 2025 else yr) of
                               Some d \<Rightarrow> d | None \<Rightarrow> CALIFORNIA_2025))))"
  "state_standardDeduction (getTaxConstants yr (Some ''california'') fs)
     = Some (standardDeduction (case CALIFORNIA_DATA (if yr = 0 then 2025 else yr) of
                               Some d \<Rightarrow> d | None \<Rightarrow> CALIFORNIA_2025))"
  by (simp_all add: getTaxConstants_def state_stdDeduction_def state_standardDeduction_def Let_def)

lemma state_std_ny:
  "state_stdDeduction (getTaxConstants yr (Some ''newYork'') fs)
     = Some (lookup_amount
         (standardDeduction (case NEWYORK_DATA (if yr = 0 then 2025 else yr) of
                               Some d \<Rightarrow> d | None \<Rightarrow> NEWYORK_2025))
         (if fs = [] then ''single'' else fs)
         (single_amount
           (standardDeduction (case NEWYORK_DATA (if yr = 0 then 2025 else yr) of
                               Some d \<Rightarrow> d | None \<Rightarrow> NEWYORK_2025))))"
  "state_standardDeduction (getTaxConstants yr (Some ''newYork'') fs)
     = Some (standardDeduction (case NEWYORK_DATA (if yr = 0 then 2025 else yr) of
                               Some d \<Rightarrow> d | None \<Rightarrow> NEWYORK_2025))"
  by (simp_all add: getTaxConstants_def state_stdDeduction_def state_standardDeduction_def Let_def)

lemma state_year_deductions_eq:
  "state_year_deductions yr ''california''
     = standardDeduction (case CALIFORNIA_DATA (if yr = 0 then 2025 else yr) of
                            Some d \<Rightarrow> d | None \<Rightarrow> CALIFORNIA_2025)"
  "state_year_deductions yr ''newYork''
     = standardDeduction (case NEWYORK_DATA (if yr = 0 then 2025 else yr) of
                            Some d \<Rightarrow> d | None \<Rightarrow> NEWYORK_2025)"
  by (simp_all add: state_year_deductions_def caYear_def nyYear_def)

lemma state_std_own:
  assumes st: "st = ''california'' \<or> st = ''newYork''"
      and fs: "fs \<in> {''single'', ''mfj'', ''mfs'', ''hoh''}"
  shows "state_standardDeduction (getTaxConstants yr (Some st) fs)
           = Some (state_year_deductions yr st)
       \<and> map_of (state_year_deductions yr st) fs \<noteq> None
       \<and> state_stdDeduction (getTaxConstants yr (Some st) fs)
           = map_of (state_year_deductions yr st) fs"
proof -
  consider "st = ''california''" | "st = ''newYork''" using st by blast
  then show ?thesis
  proof cases
    case 1
    show ?thesis
      using ca_std [of "if yr = 0 then 2025 else yr"] fs
      unfolding 1 state_std_ca state_year_deductions_eq
      by (auto simp: lookup_amount_def single_amount_def or_else_def)
  next
    case 2
    show ?thesis
      using fs unfolding 2 state_std_ny state_year_deductions_eq ny_std
      by (auto simp: lookup_amount_def single_amount_def or_else_def)
  qed
qed

lemma state_std_mfs:
  assumes st: "st = ''california'' \<or> st = ''newYork''"
  shows "state_stdDeduction (getTaxConstants yr (Some st) ''mfs'')
           = state_stdDeduction (getTaxConstants yr (Some st) ''single'')"
proof -
  consider "st = ''california''" | "st = ''newYork''" using st by blast
  then show ?thesis
  proof cases
    case 1
    show ?thesis
      using ca_std [of "if yr = 0 then 2025 else yr"]
      unfolding 1 state_std_ca
      by (auto simp: lookup_amount_def single_amount_def or_else_def)
  next
    case 2
    show ?thesis
      unfolding 2 state_std_ny ny_std
      by (auto simp: lookup_amount_def single_amount_def or_else_def)
  qed
qed

lemma hoh_ca_2025:
  "state_stdDeduction (getTaxConstants 2025 (Some ''california'') ''hoh'') = Some 11080"
  "state_stdDeduction (getTaxConstants 2025 (Some ''california'') ''single'') = Some 5540"
  "state_stdDeduction (getTaxConstants 2025 (Some ''newYork'') ''hoh'') = Some 11200"
  "state_stdDeduction (getTaxConstants 2025 (Some ''newYork'') ''single'') = Some 8000"
  unfolding state_std_ca state_std_ny ny_std
  by (simp_all add: CALIFORNIA_DATA_def CALIFORNIA_2025_def lookup_amount_def single_amount_def
        or_else_def)

text \<open>
  C7 (state filing-status mapping), as the specification states it for the standard
  deduction: head-of-household resolves to the deduction of single. For California in
  2025 the deduction resolved for head-of-household is 11080, the table's own entry, and
  the one for single is 5540.
\<close>

theorem state_deduction_hoh_not_single:
  "state_stdDeduction (getTaxConstants 2025 (Some ''california'') ''hoh'') = Some 11080
   \<and> state_stdDeduction (getTaxConstants 2025 (Some ''california'') ''single'') = Some 5540
   \<and> state_stdDeduction (getTaxConstants 2025 (Some ''california'') ''hoh'')
       \<noteq> state_stdDeduction (getTaxConstants 2025 (Some ''california'') ''single'')"
  by (simp add: hoh_ca_2025)

text \<open>
  C7, amended. For every year and for California and New York, with the tables of the
  state's entry for the year before any filing status is resolved
  (\<open>state_year_brackets\<close>, \<open>state_year_deductions\<close>): the bracket table has an entry for
  single and an entry for married-filing-jointly, and the two differ; the bracket table
  resolved for single, for married-filing-separately and for head-of-household is the
  entry of single, and the one resolved for married-filing-jointly and for
  qualifying-surviving-spouse is the entry of married-filing-jointly; the standard
  deduction resolved for single, mfj, mfs and hoh is the entry of the state's deduction
  table under that very status, and the entry of mfs is the amount of single.
\<close>

theorem state_filing_status_mapping:
  assumes "st = ''california'' \<or> st = ''newYork''"
  shows "map_of (state_year_brackets yr st) ''single'' \<noteq> None
       \<and> map_of (state_year_brackets yr st) ''mfj'' \<noteq> None
       \<and> map_of (state_year_brackets yr st) ''single''
           \<noteq> map_of (state_year_brackets yr st) ''mfj''
       \<and> state_brackets (getTaxConstants yr (Some st) ''single'')
           = map_of (state_year_brackets yr st) ''single''
       \<and> state_brackets (getTaxConstants yr (Some st) ''mfs'')
           = map_of (state_year_brackets yr st) ''single''
       \<and> state_brackets (getTaxConstants yr (Some st) ''hoh'')
           = map_of (state_year_brackets yr st) ''single''
       \<and> state_brackets (getTaxConstants yr (Some st) ''mfj'')
           = map_of (state_year_brackets yr st) ''mfj''
       \<and> state_brackets (getTaxConstants yr (Some st) ''qss'')
           = map_of (state_year_brackets yr st) ''mfj''
       \<and> state_stdDeduction (getTaxConstants yr (Some st) ''mfs'')
           = state_stdDeduction (getTaxConstants yr (Some st) ''single'')
       \<and> (\<forall>fs \<in> {''single'', ''mfj'', ''mfs'', ''hoh''}.
            state_standardDeduction (getTaxConstants yr (Some st) fs)
              = Some (state_year_deductions yr st)
            \<and> map_of (state_year_deductions yr st) fs \<noteq> None
            \<and> state_stdDeduction (getTaxConstants yr (Some st) fs)
              = map_of (state_year_deductions yr st) fs)"
  using state_year_entries [OF assms, of yr] state_brackets_own [OF assms, of yr]
    state_std_mfs [OF assms, of yr] state_std_own [OF assms, of _ yr]
  by blast

theorem state_filing_status_mapping_witness:
  "state_brackets (getTaxConstants 2025 (Some ''newYork'') ''hoh'')
     = map_of (brackets NEWYORK_2025) ''single''
   \<and> state_brackets (getTaxConstants 2025 (Some ''newYork'') ''qss'')
     = map_of (brackets NEWYORK_2025) ''mfj''
   \<and> map_of (brackets NEWYORK_2025) ''single'' \<noteq> None
   \<and> map_of (brackets NEWYORK_2025) ''single'' \<noteq> map_of (brackets NEWYORK_2025) ''mfj''
   \<and> state_stdDeduction (getTaxConstants 2025 (Some ''newYork'') ''mfs'') = Some 8000
   \<and> state_stdDeduction (getTaxConstants 2025 (Some ''newYork'') ''hoh'') = Some 11200
   \<and> state_stdDeduction (getTaxConstants 2025 (Some ''newYork'') ''hoh'')
       = map_of (standardDeduction NEWYORK_2025) ''hoh''"
  using state_filing_status_mapping [of "''newYork''" 2025]
  by (simp add: hoh_ca_2025 state_year_brackets_def state_year_deductions_def nyYear_def
        NEWYORK_DATA_def)


section \<open>The rules engine: filtering and isolation\<close>

lemma applicableRules_append:
  "applicableRules (A @ B) f = applicableRules A f @ applicableRules B f"
  by (simp add: applicableRules_def split: option.split)

lemma those_Some_iff: "those xs = Some ys \<longleftrightarrow> xs = map Some ys"
  by (induction xs arbitrary: ys) (auto split: option.splits)

lemma those_None_iff: "those xs = None \<longleftrightarrow> None \<in> set xs"
  by (induction xs) (auto split: option.splits)

lemma those_append:
  "those (xs @ ys) =
     (case those xs of None \<Rightarrow> None
      | Some a \<Rightarrow> (case those ys of None \<Rightarrow> None | Some b \<Rightarrow> Some (a @ b)))"
  by (induction xs) (auto split: option.splits)

lemma run_rule_None:
  "run_rule st r = None \<longleftrightarrow> check r st = Inl Null \<or> check r st = Inl Undefined"
  by (simp add: run_rule_def split: sum.split js_error.split)

lemma run_rule_meta:
  "run_rule st r = Some v \<Longrightarrow> rule_id v = rule_id r \<and> scenarios v = scenarios r"
  by (auto simp: run_rule_def split: sum.splits js_error.splits)

lemma run_rule_map_meta:
  "map Some vs = map (run_rule st) rs \<Longrightarrow>
   map rule_id vs = map rule_id rs \<and> map scenarios vs = map scenarios rs"
proof (induction rs arbitrary: vs)
  case Nil
  then show ?case by simp
next
  case (Cons r rs)
  then obtain v ws where vs: "vs = v # ws" by (cases vs) auto
  with Cons.prems have "run_rule st r = Some v" "map Some ws = map (run_rule st) rs" by simp_all
  with Cons.IH [of ws] run_rule_meta [of st r v] show ?case by (simp add: vs)
qed

lemma results_runRulesEngine:
  "map_option results (runRulesEngine RULES st f)
     = those (map (run_rule st) (applicableRules RULES f))"
  by (simp add: runRulesEngine_def Let_def split: option.split)

lemma runRulesEngine_None:
  "runRulesEngine RULES st f = None \<longleftrightarrow>
     (\<exists>r \<in> set (applicableRules RULES f). check r st = Inl Null \<or> check r st = Inl Undefined)"
proof -
  have "runRulesEngine RULES st f = None
          \<longleftrightarrow> those (map (run_rule st) (applicableRules RULES f)) = None"
    by (simp add: runRulesEngine_def Let_def split: option.split)
  also have "\<dots> \<longleftrightarrow> (\<exists>r \<in> set (applicableRules RULES f). run_rule st r = None)"
    by (simp add: those_None_iff image_iff) metis
  finally show ?thesis by (simp add: run_rule_None)
qed

lemma runRulesEngine_Some:
  assumes "runRulesEngine RULES st f = Some res"
  shows "map Some (results res) = map (run_rule st) (applicableRules RULES f)"
    and "summary res = summarise (results res)"
proof -
  from assms obtain rs where
    rs: "those (map (run_rule st) (applicableRules RULES f)) = Some rs"
    and res: "res = \<lparr> results = rs, summary = summarise rs,
                complianceSummary = summarise (filter (\<lambda>r. rule_type r = ''compliance'') rs) \<rparr>"
    by (auto simp: runRulesEngine_def Let_def split: option.splits)
  from rs show "map Some (results res) = map (run_rule st) (applicableRules RULES f)"
    by (simp add: those_Some_iff res)
  show "summary res = summarise (results res)" by (simp add: res)
qed

text \<open>
  What the handler does achieve. Let \<open>r\<close> be a rule that the filter \<open>f\<close> selects and
  whose check throws, on the state \<open>st\<close>, a value with the message \<open>m\<close>, anywhere in the
  table \<open>A @ r # B\<close>. When the engine returns for the rules before and after \<open>r\<close>, it
  returns for the whole table: the verdicts before and after that of \<open>r\<close> are the verdicts
  of the table \<open>A @ B\<close>, from which \<open>r\<close> is absent, and the verdict of \<open>r\<close> has the status
  skip and the detail "Error running check: " followed by \<open>m\<close>.
\<close>

lemma isolation_of_messages:
  assumes throws: "check r st = Inl (Error m)"
      and applicable: "applicableRules [r] f = [r]"
  shows "map_option results (runRulesEngine (A @ r # B) st f) =
           (case map_option results (runRulesEngine A st f) of None \<Rightarrow> None
            | Some ra \<Rightarrow>
               (case map_option results (runRulesEngine B st f) of None \<Rightarrow> None
                | Some rb \<Rightarrow>
                    Some (ra @ [\<lparr> rule_id = rule_id r, name = name r, taxCode = taxCode r,
                       scenarios = scenarios r, stage = stage r, rule_type = rule_type r,
                       severity = severity r, status = Skip, currentValue = dash,
                       expectedValue = dash, extracted = False,
                       detail = ''Error running check: '' @ m \<rparr>] @ rb)))"
    and "map_option results (runRulesEngine (A @ B) st f) =
           (case map_option results (runRulesEngine A st f) of None \<Rightarrow> None
            | Some ra \<Rightarrow>
               (case map_option results (runRulesEngine B st f) of None \<Rightarrow> None
                | Some rb \<Rightarrow> Some (ra @ rb)))"
proof -
  have split: "applicableRules (A @ r # B) f
                 = applicableRules A f @ [r] @ applicableRules B f"
    using applicableRules_append [of A "[r] @ B" f] applicableRules_append [of "[r]" B f]
    by (simp add: applicable)
  have one: "run_rule st r =
     Some \<lparr> rule_id = rule_id r, name = name r, taxCode = taxCode r,
                   scenarios = scenarios r, stage = stage r, rule_type = rule_type r,
                   severity = severity r, status = Skip, currentValue = dash,
                   expectedValue = dash, extracted = False,
                   detail = ''Error running check: '' @ m \<rparr>"
    by (simp add: run_rule_def throws)
  show "map_option results (runRulesEngine (A @ r # B) st f) =
           (case map_option results (runRulesEngine A st f) of None \<Rightarrow> None
            | Some ra \<Rightarrow>
               (case map_option results (runRulesEngine B st f) of None \<Rightarrow> None
                | Some rb \<Rightarrow>
                    Some (ra @ [\<lparr> rule_id = rule_id r, name = name r, taxCode = taxCode r,
                       scenarios = scenarios r, stage = stage r, rule_type = rule_type r,
                       severity = severity r, status = Skip, currentValue = dash,
                       expectedValue = dash, extracted = False,
                       detail = ''Error running check: '' @ m \<rparr>] @ rb)))"
    unfolding results_runRulesEngine split
    by (simp add: those_append one split: option.split)
  show "map_option results (runRulesEngine (A @ B) st f) =
           (case map_option results (runRulesEngine A st f) of None \<Rightarrow> None
            | Some ra \<Rightarrow>
               (case map_option results (runRulesEngine B st f) of None \<Rightarrow> None
                | Some rb \<Rightarrow> Some (ra @ rb)))"
    unfolding results_runRulesEngine applicableRules_append
    by (simp add: those_append split: option.split)
qed


text \<open>
  C6 (scenario filtering). For every table and every state, the engine run with the
  filter fed-1099 returns the verdicts of exactly the rules of the table whose scenarios
  include fed-1099, in the order of the table; every verdict returned carries fed-1099
  among its scenarios, so a rule tagged with other scenarios only has no verdict. The
  engine returns unless the check of one of these rules throws \<^verbatim>\<open>null\<close> or
  \<^verbatim>\<open>undefined\<close>.
\<close>

theorem scenario_filtering:
  "map_option results (runRulesEngine RULES st (Some ''fed-1099''))
     = those (map (run_rule st) (filter (\<lambda>r. ''fed-1099'' \<in> set (scenarios r)) RULES))
   \<and> (runRulesEngine RULES st (Some ''fed-1099'') = None \<longleftrightarrow>
        (\<exists>r \<in> set (filter (\<lambda>r. ''fed-1099'' \<in> set (scenarios r)) RULES).
            check r st = Inl Null \<or> check r st = Inl Undefined))
   \<and> (\<forall>res. runRulesEngine RULES st (Some ''fed-1099'') = Some res \<longrightarrow>
          map Some (results res)
            = map (run_rule st) (filter (\<lambda>r. ''fed-1099'' \<in> set (scenarios r)) RULES)
        \<and> map rule_id (results res)
            = map rule_id (filter (\<lambda>r. ''fed-1099'' \<in> set (scenarios r)) RULES)
        \<and> (\<forall>v \<in> set (results res). ''fed-1099'' \<in> set (scenarios v)))"
proof -
  let ?sel = "filter (\<lambda>r. ''fed-1099'' \<in> set (scenarios r)) RULES"
  have app: "applicableRules RULES (Some ''fed-1099'') = ?sel"
    by (simp add: applicableRules_def)
  have 1: "map_option results (runRulesEngine RULES st (Some ''fed-1099''))
             = those (map (run_rule st) ?sel)"
    by (simp add: results_runRulesEngine app)
  have 2: "runRulesEngine RULES st (Some ''fed-1099'') = None \<longleftrightarrow>
        (\<exists>r \<in> set ?sel. check r st = Inl Null \<or> check r st = Inl Undefined)"
    by (simp only: runRulesEngine_None app)
  have 3: "map Some (results res) = map (run_rule st) ?sel
        \<and> map rule_id (results res) = map rule_id ?sel
        \<and> (\<forall>v \<in> set (results res). ''fed-1099'' \<in> set (scenarios v))"
    if "runRulesEngine RULES st (Some ''fed-1099'') = Some res" for res
  proof -
    from runRulesEngine_Some(1) [OF that]
    have m: "map Some (results res) = map (run_rule st) ?sel" by (simp only: app)
    from run_rule_map_meta [OF m]
    have ids: "map rule_id (results res) = map rule_id ?sel"
      and tags: "map scenarios (results res) = map scenarios ?sel" by simp_all
    have "\<forall>t \<in> set (map scenarios ?sel). ''fed-1099'' \<in> set t" by auto
    then have "\<forall>t \<in> set (map scenarios (results res)). ''fed-1099'' \<in> set t"
      by (simp only: tags)
    then have "\<forall>v \<in> set (results res). ''fed-1099'' \<in> set (scenarios v)" by simp
    with m ids show ?thesis by blast
  qed
  from 1 2 3 show ?thesis by blast
qed

theorem scenario_filtering_witness:
  "map_option (\<lambda>res. map rule_id (results res)) (runRulesEngine
      [fixed_rule ''se-01'' [''fed-1099''] (Inr (plain_result Pass)),
       fixed_rule ''ca-01'' [''ca-w2''] (Inr (plain_result Pass)),
       fixed_rule ''inc-03'' [''fed-w2'', ''fed-1099''] (Inr (plain_result Warn))]
      () (Some ''fed-1099'')) = Some [''se-01'', ''inc-03'']"
proof -
  let ?T = "[fixed_rule ''se-01'' [''fed-1099''] (Inr (plain_result Pass)),
       fixed_rule ''ca-01'' [''ca-w2''] (Inr (plain_result Pass)),
       fixed_rule ''inc-03'' [''fed-w2'', ''fed-1099''] (Inr (plain_result Warn))]"
  note inst = scenario_filtering [of ?T "()"]
  have "runRulesEngine ?T () (Some ''fed-1099'') \<noteq> None"
    using inst [THEN conjunct2, THEN conjunct1]
    by (simp add: fixed_rule_def)
  then obtain res where res: "runRulesEngine ?T () (Some ''fed-1099'') = Some res" by blast
  with inst have "map rule_id (results res)
     = map rule_id (filter (\<lambda>r. ''fed-1099'' \<in> set (scenarios r)) ?T)"
    by blast
  then have "map rule_id (results res) = [''se-01'', ''inc-03'']"
    by (simp add: fixed_rule_def)
  with res show ?thesis by simp
qed


section \<open>The rules engine: the score\<close>

lemma points_of_exact: "points_of r = exact_points r"
  by (simp add: points_of_def exact_points_def half_exact)

lemma points_step:
  assumes "\<bar>k\<bar> + 2 < 2 ^ 53"
  shows "\<exists>j. jadd (of_int k / 2) (points_of r) = of_int j / 2
           \<and> of_int j / 2 = of_int k / 2 + exact_points r \<and> k \<le> j \<and> j \<le> k + 2"
proof -
  define d :: int where "d = (if status r = Pass then 2 else if status r = Warn then 1 else 0)"
  have p: "points_of r = of_int d / 2"
    by (simp add: points_of_exact exact_points_def d_def)
  have d: "0 \<le> d" "d \<le> 2" by (simp_all add: d_def)
  have "\<bar>k + d\<bar> < 2 ^ 53" using assms d by linarith
  then have "fl (of_int (k + d) / 2) = of_int (k + d) / 2" by (rule fl_half_int)
  moreover have "rat_of_int k / 2 + of_int d / 2 = of_int (k + d) / 2" by simp
  ultimately have "jadd (of_int k / 2) (points_of r) = of_int (k + d) / 2"
    by (simp only: jadd_def p)
  moreover have "rat_of_int (k + d) / 2 = of_int k / 2 + exact_points r"
    using p by (simp add: points_of_exact)
  ultimately show ?thesis using d by (intro exI [of _ "k + d"]) simp
qed

lemma points_fold:
  "0 \<le> k \<Longrightarrow> k + 2 * int (length rs) < 2 ^ 53 \<Longrightarrow>
   foldl (\<lambda>sum r. jadd sum (points_of r)) (of_int k / 2) rs
     = of_int k / 2 + sum_list (map exact_points rs)"
proof (induction rs arbitrary: k)
  case Nil
  then show ?case by simp
next
  case (Cons r rs)
  have "\<bar>k\<bar> + 2 < 2 ^ 53" using Cons.prems by simp
  from points_step [OF this, of r] obtain j where
    j: "jadd (of_int k / 2) (points_of r) = of_int j / 2"
       "rat_of_int j / 2 = of_int k / 2 + exact_points r" "k \<le> j" "j \<le> k + 2"
    by blast
  have "0 \<le> j" "j + 2 * int (length rs) < 2 ^ 53" using j(3,4) Cons.prems by simp_all
  then have ih: "foldl (\<lambda>sum r. jadd sum (points_of r)) (of_int j / 2) rs
               = of_int j / 2 + sum_list (map exact_points rs)"
    by (rule Cons.IH)
  have "foldl (\<lambda>sum r. jadd sum (points_of r)) (of_int k / 2) (r # rs)
          = foldl (\<lambda>sum r. jadd sum (points_of r)) (jadd (of_int k / 2) (points_of r)) rs"
    by simp
  also have "\<dots> = of_int j / 2 + sum_list (map exact_points rs)"
    by (simp only: j(1) ih)
  also have "\<dots> = of_int k / 2 + sum_list (map exact_points (r # rs))"
    by (simp only: j(2)) simp
  finally show ?case .
qed

lemma sum_exact_points:
  "sum_list (map exact_points rs)
     = of_nat (length (filter (\<lambda>r. status r = Pass) rs))
       + of_nat (length (filter (\<lambda>r. status r = Warn) rs)) / 2"
  by (induction rs) (simp_all add: exact_points_def add_divide_distrib)

lemma points_total:
  assumes "length rs < 2 ^ 32"
  shows "foldl (\<lambda>sum r. jadd sum (points_of r)) 0 rs
     = of_nat (length (filter (\<lambda>r. status r = Pass) rs))
       + of_nat (length (filter (\<lambda>r. status r = Warn) rs)) / 2"
proof -
  have "int (length rs) < 2 ^ 32" using assms by (simp add: of_nat_less_numeral_power_cancel_iff)
  then have "0 + 2 * int (length rs) < 2 ^ 53" by simp
  from points_fold [OF order_refl this] show ?thesis
    by (simp add: sum_exact_points)
qed

lemma score_summarise:
  assumes "length rs < 2 ^ 32"
  shows "score (summarise rs) =
     (if length (filter (\<lambda>r. status r \<noteq> Skip) rs) = 0 then 0
      else js_round (jmul (jdiv (of_nat (length (filter (\<lambda>r. status r = Pass) rs))
                                  + of_nat (length (filter (\<lambda>r. status r = Warn) rs)) / 2)
                                (of_nat (length (filter (\<lambda>r. status r \<noteq> Skip) rs))))
                          100))"
proof -
  let ?scored = "filter (\<lambda>r. status r \<noteq> Skip) rs"
  have "length ?scored \<le> length rs" by simp
  then have len: "length ?scored < 2 ^ 32" using assms by (rule le_less_trans)
  have p: "filter (\<lambda>x. status x \<noteq> Skip \<and> status x = Pass) rs
             = filter (\<lambda>r. status r = Pass) rs"
    by (rule filter_cong) auto
  have w: "filter (\<lambda>x. status x \<noteq> Skip \<and> status x = Warn) rs
             = filter (\<lambda>r. status r = Warn) rs"
    by (rule filter_cong) auto
  show ?thesis
    by (simp add: summarise_def Let_def points_total [OF len] p w)
qed

lemma count_status:
  "length (filter (\<lambda>r. status r = x) rs) = length (filter (\<lambda>s. s = x) (map status rs))"
  "length (filter (\<lambda>r. status r \<noteq> x) rs) = length (filter (\<lambda>s. s \<noteq> x) (map status rs))"
  by (simp_all add: filter_map comp_def)

lemma run_fixed:
  "\<exists>v'. run_rule () (fixed_rule i tags (Inr (plain_result v))) = Some v' \<and> status v' = v"
  by (simp add: run_rule_def fixed_rule_def plain_result_def)

lemma engine_23_of_40:
  "\<exists>res. runRulesEngine table_23_of_40 () None = Some res
         \<and> map status (results res) = replicate 23 Pass @ replicate 17 Fail"
proof -
  from run_fixed [of "''p''" "[''fed-w2'']" Pass] obtain p where
    p: "run_rule () (fixed_rule ''p'' [''fed-w2''] (Inr (plain_result Pass))) = Some p"
       "status p = Pass" by blast
  from run_fixed [of "''f''" "[''fed-w2'']" Fail] obtain f where
    f: "run_rule () (fixed_rule ''f'' [''fed-w2''] (Inr (plain_result Fail))) = Some f"
       "status f = Fail" by blast
  have "map (run_rule ()) (applicableRules table_23_of_40 None)
          = map Some (replicate 23 p @ replicate 17 f)"
    by (simp add: applicableRules_def table_23_of_40_def p(1) f(1))
  then have "those (map (run_rule ()) (applicableRules table_23_of_40 None))
          = Some (replicate 23 p @ replicate 17 f)"
    by (simp only: those_Some_iff)
  then have "runRulesEngine table_23_of_40 () None
      = Some \<lparr> results = replicate 23 p @ replicate 17 f,
               summary = summarise (replicate 23 p @ replicate 17 f),
               complianceSummary = summarise (filter (\<lambda>r. rule_type r = ''compliance'')
                  (replicate 23 p @ replicate 17 f)) \<rparr>"
    by (simp add: runRulesEngine_def Let_def)
  then show ?thesis by (simp add: p(2) f(2))
qed

lemma summarise_23_of_40:
  assumes "map status rs = replicate 23 Pass @ replicate 17 Fail"
  shows "passed (summarise rs) = 23" and "failed (summarise rs) = 17"
    and "skipped (summarise rs) = 0" and "score (summarise rs) = 57"
proof -
  have "length (map status rs) = 40" by (simp only: assms) simp
  then have len: "length rs < 2 ^ 32" by simp
  have counts:
    "length (filter (\<lambda>r. status r = Pass) rs) = 23"
    "length (filter (\<lambda>r. status r = Fail) rs) = 17"
    "length (filter (\<lambda>r. status r = Warn) rs) = 0"
    "length (filter (\<lambda>r. status r = Skip) rs) = 0"
    "length (filter (\<lambda>r. status r \<noteq> Skip) rs) = 40"
    by (simp_all only: count_status assms) simp_all
  show "passed (summarise rs) = 23" "failed (summarise rs) = 17" "skipped (summarise rs) = 0"
    by (simp_all add: summarise_def Let_def counts)
  show "score (summarise rs) = 57"
    by (simp add: score_summarise [OF len] counts div_23_40 mul_score js_round_def)
qed

lemma length_results:
  assumes "runRulesEngine RULES st f = Some res"
  shows "length (results res) \<le> length RULES"
proof -
  have "length (map Some (results res)) = length (applicableRules RULES f)"
    by (simp only: runRulesEngine_Some(1) [OF assms] length_map)
  moreover have "length (applicableRules RULES f) \<le> length RULES"
    by (simp add: applicableRules_def split: option.split)
  ultimately show ?thesis by simp
qed

lemma fl_half [simp]: "fl (1 / 2) = 1 / 2"
  using half_exact by (simp add: lit_def)

text \<open>
  C3 (scoring), as the specification states it: the score is
  round(100 * points / scored count). For the table of forty rules, of which twenty-three
  pass and seventeen fail, the engine returns the score 57, whereas 100 * 23 / 40 = 57.5
  rounds to 58, also when the product and the quotient are rounded to binary64 in the
  order the specification writes them. The source divides first: the quotient 23 / 40 is
  rounded to binary64, below 0.575, and its product with 100 falls below 57.5.
\<close>

theorem score_as_stated_fails:
  "map_option (\<lambda>res. (passed (summary res), failed (summary res), skipped (summary res),
                      score (summary res)))
     (runRulesEngine table_23_of_40 () None) = Some (23, 17, 0, 57)
   \<and> js_round (100 * 23 / 40) = 58
   \<and> js_round (jdiv (jmul 100 23) 40) = 58
   \<and> map_option (\<lambda>res. score (summary res)) (runRulesEngine table_23_of_40 () None)
       \<noteq> Some (js_round (100 * 23 / 40))"
proof -
  from engine_23_of_40 obtain res where
    res: "runRulesEngine table_23_of_40 () None = Some res"
    and st: "map status (results res) = replicate 23 Pass @ replicate 17 Fail" by blast
  have s: "summary res = summarise (results res)" by (rule runRulesEngine_Some(2) [OF res])
  show ?thesis
    by (simp add: res s summarise_23_of_40 [OF st] js_round_def jmul_def div_2300_40)
qed

text \<open>
  C3, amended. For every table (of fewer than \<open>2 ^ 32\<close> rules, the bound of an array),
  every state and every filter: let the points be the number of verdicts with status pass
  plus half the number with status warn, and the scored count the number of verdicts
  whose status is not skip. The points are computed exactly. When the scored count is 0
  the score is 0; otherwise the score is round((points / scored count) * 100), where the
  quotient is rounded to binary64 before it is multiplied by 100 and the product is
  rounded to binary64 before it is rounded to a whole number. The engine returns, with
  this score, unless the check of an applicable rule throws \<^verbatim>\<open>null\<close> or \<^verbatim>\<open>undefined\<close>.
\<close>

theorem score_formula:
  assumes "length RULES < 2 ^ 32"
  shows "(runRulesEngine RULES st f = None \<longleftrightarrow>
            (\<exists>r \<in> set (applicableRules RULES f).
                check r st = Inl Null \<or> check r st = Inl Undefined))
     \<and> (\<forall>res. runRulesEngine RULES st f = Some res \<longrightarrow>
          score (summary res) =
            (if length (filter (\<lambda>r. status r \<noteq> Skip) (results res)) = 0 then 0
             else js_round (jmul
                    (jdiv (of_nat (length (filter (\<lambda>r. status r = Pass) (results res)))
                            + of_nat (length (filter (\<lambda>r. status r = Warn) (results res))) / 2)
                          (of_nat (length (filter (\<lambda>r. status r \<noteq> Skip) (results res)))))
                    100))
          \<and> ((\<forall>r \<in> set (results res). status r = Skip) \<longrightarrow> score (summary res) = 0))"
proof -
  have 0: "runRulesEngine RULES st f = None \<longleftrightarrow>
            (\<exists>r \<in> set (applicableRules RULES f).
                check r st = Inl Null \<or> check r st = Inl Undefined)"
    by (rule runRulesEngine_None)
  have 1: "score (summary res) =
            (if length (filter (\<lambda>r. status r \<noteq> Skip) (results res)) = 0 then 0
             else js_round (jmul
                    (jdiv (of_nat (length (filter (\<lambda>r. status r = Pass) (results res)))
                            + of_nat (length (filter (\<lambda>r. status r = Warn) (results res))) / 2)
                          (of_nat (length (filter (\<lambda>r. status r \<noteq> Skip) (results res)))))
                    100))"
    if res: "runRulesEngine RULES st f = Some res" for res
  proof -
    have "length (results res) \<le> length RULES" by (rule length_results [OF res])
    then have len: "length (results res) < 2 ^ 32" using assms by (rule le_less_trans)
    show ?thesis
      unfolding runRulesEngine_Some(2) [OF res] by (rule score_summarise [OF len])
  qed
  have 2: "score (summary res) = 0"
    if res: "runRulesEngine RULES st f = Some res"
      and skip: "\<forall>r \<in> set (results res). status r = Skip" for res
  proof -
    have "filter (\<lambda>r. status r \<noteq> Skip) (results res) = []"
      using skip by (simp add: filter_empty_conv)
    then show ?thesis by (simp add: 1 [OF res])
  qed
  from 0 1 2 show ?thesis by blast
qed

theorem score_formula_witness:
  "length [fixed_rule ''a'' [] (Inr (plain_result Pass)),
           fixed_rule ''b'' [] (Inr (plain_result Warn)),
           fixed_rule ''c'' [] (Inr (plain_result Fail)),
           fixed_rule ''d'' [] (Inl (Error ''x is undefined''))] < (2::nat) ^ 32
   \<and> map_option (\<lambda>res. score (summary res)) (runRulesEngine
         [fixed_rule ''a'' [] (Inr (plain_result Pass)),
          fixed_rule ''b'' [] (Inr (plain_result Warn)),
          fixed_rule ''c'' [] (Inr (plain_result Fail)),
          fixed_rule ''d'' [] (Inl (Error ''x is undefined''))] () None) = Some 50
   \<and> map_option (\<lambda>res. score (summary res)) (runRulesEngine
         [fixed_rule ''d'' [] (Inl (Error ''x is undefined''))] () None) = Some 0"
proof -
  let ?T = "[fixed_rule ''a'' [] (Inr (plain_result Pass)),
          fixed_rule ''b'' [] (Inr (plain_result Warn)),
          fixed_rule ''c'' [] (Inr (plain_result Fail)),
          fixed_rule ''d'' [] (Inl (Error ''x is undefined''))]"
  let ?D = "[fixed_rule ''d'' [] (Inl (Error ''x is undefined''))]"
  have lt: "length ?T < (2::nat) ^ 32" by simp
  have ld: "length ?D < (2::nat) ^ 32" by simp
  note t = score_formula [OF lt, of "()" None]
  note d = score_formula [OF ld, of "()" None]
  have "runRulesEngine ?T () None \<noteq> None"
    using t [THEN conjunct1] by (simp add: applicableRules_def fixed_rule_def)
  then obtain rt where rt: "runRulesEngine ?T () None = Some rt" by blast
  have "runRulesEngine ?D () None \<noteq> None"
    using d [THEN conjunct1] by (simp add: applicableRules_def fixed_rule_def)
  then obtain rd where rd: "runRulesEngine ?D () None = Some rd" by blast
  have "map Some (results rt) = map (run_rule ()) ?T"
    using runRulesEngine_Some(1) [OF rt] by (simp add: applicableRules_def)
  then have "map Some (results rt) = map Some (map (\<lambda>r. the (run_rule () r)) ?T)"
    by (simp add: run_rule_def fixed_rule_def plain_result_def)
  then have "results rt = map (\<lambda>r. the (run_rule () r)) ?T"
    by (simp only: inj_map_eq_map [OF inj_Some])
  then have st: "map status (results rt) = [Pass, Warn, Fail, Skip]"
    by (simp add: run_rule_def fixed_rule_def plain_result_def)
  have "map Some (results rd) = map (run_rule ()) ?D"
    using runRulesEngine_Some(1) [OF rd] by (simp add: applicableRules_def)
  then have "map Some (results rd) = map Some (map (\<lambda>r. the (run_rule () r)) ?D)"
    by (simp add: run_rule_def fixed_rule_def plain_result_def)
  then have "results rd = map (\<lambda>r. the (run_rule () r)) ?D"
    by (simp only: inj_map_eq_map [OF inj_Some])
  then have sd: "map status (results rd) = [Skip]"
    by (simp add: run_rule_def fixed_rule_def plain_result_def)
  have ct:
    "length (filter (\<lambda>r. status r = Pass) (results rt)) = 1"
    "length (filter (\<lambda>r. status r = Warn) (results rt)) = 1"
    "length (filter (\<lambda>r. status r \<noteq> Skip) (results rt)) = 3"
    by (simp_all only: count_status st) simp_all
  have all_skip: "\<forall>r \<in> set (results rd). status r = Skip"
  proof
    fix r assume "r \<in> set (results rd)"
    then have "status r \<in> set (map status (results rd))" by simp
    then show "status r = Skip" by (simp only: sd) simp
  qed
  from t rt have "score (summary rt) =
            (if length (filter (\<lambda>r. status r \<noteq> Skip) (results rt)) = 0 then 0
             else js_round (jmul
                    (jdiv (of_nat (length (filter (\<lambda>r. status r = Pass) (results rt)))
                            + of_nat (length (filter (\<lambda>r. status r = Warn) (results rt))) / 2)
                          (of_nat (length (filter (\<lambda>r. status r \<noteq> Skip) (results rt)))))
                    100))"
    by blast
  then have 1: "score (summary rt) = 50"
    by (simp add: ct jdiv_def jmul_def js_round_def)
  from d rd all_skip have 2: "score (summary rd) = 0" by blast
  from lt 1 2 show ?thesis by (simp add: rt rd)
qed


section \<open>The gap questions\<close>

lemma keep_gap_iff:
  "keep_gap s r \<longleftrightarrow> gap_id r \<notin> dom (gapAnswers s) \<and> condition r s = Inr True"
  by (auto simp: keep_gap_def dom_def split: sum.splits)

text \<open>
  C8 (gap-question selection). For every table and every session the selector returns, in
  the order of the table, exactly the rules whose id is not a key of \<open>gapAnswers\<close> and
  whose condition returns true on the session; the same holds of \<open>getGapQuestions\<close> on
  the table of the source. A rule whose condition throws is not returned. Once
  \<open>gapAnswers\<close> has an answer for has401k, true or false, no rule with that id is
  returned.
\<close>

theorem gap_selection:
  "getGapQuestionsFrom table s
     = filter (\<lambda>r. gap_id r \<notin> dom (gapAnswers s) \<and> condition r s = Inr True) table
   \<and> getGapQuestions s
     = filter (\<lambda>r. gap_id r \<notin> dom (gapAnswers s) \<and> condition r s = Inr True) GAP_RULES
   \<and> (\<forall>r \<in> set table. (\<exists>e. condition r s = Inl e) \<longrightarrow> r \<notin> set (getGapQuestionsFrom table s))
   \<and> (\<forall>b. gapAnswers s ''has401k'' = Some b \<longrightarrow>
          ''has401k'' \<notin> gap_id ` set (getGapQuestions s))"
  by (auto simp: getGapQuestions_def getGapQuestionsFrom_def keep_gap_iff cong: filter_cong)

theorem gap_selection_witness:
  "gapAnswers (taxSession \<lparr> gapAnswers := [''has401k'' \<mapsto> False] \<rparr>) ''has401k'' = Some False
   \<and> ''has401k'' \<notin> gap_id ` set (getGapQuestions (taxSession \<lparr> gapAnswers := [''has401k'' \<mapsto> False] \<rparr>))
   \<and> condition throwing_gap (taxSession \<lparr> gapAnswers := [''has401k'' \<mapsto> False] \<rparr>)
        = Inl (Error ''s.incomes is undefined'')
   \<and> map gap_id (getGapQuestionsFrom (throwing_gap # GAP_RULES)
        (taxSession \<lparr> gapAnswers := [''has401k'' \<mapsto> False] \<rparr>))
      = [''hasIRA'', ''hasHSA'', ''hasMortgage'', ''hasSALT'', ''hasCharitable'', ''hasStudentLoan'',
         ''hasTuition'', ''isEducator'', ''hasSoldStocks'', ''hasEV'', ''hasEnergyImprovements'',
         ''hasOtherIncome'']"
  using gap_selection [of "throwing_gap # GAP_RULES"
      "taxSession \<lparr> gapAnswers := [''has401k'' \<mapsto> False] \<rparr>"]
  by (simp add: throwing_gap_def taxSession_def GAP_RULES_def gap_def has_box12_def has_doc_def)

end
